theory Spec2Isabelle
  imports Main "HOL-Library.Sublist"
begin

section \<open>Regular expressions of the middleware\<close>

text \<open>
  The middleware decides almost everything by regular-expression tests on path strings.
  Each regular-expression literal of \<^verbatim>\<open>wmr-middleware.js\<close> is embedded as a value of the
  datatype \<open>rx\<close> and evaluated by a derivative matcher, so that a definition can be compared
  with the literal it stands for. Strings are lists of characters; every pattern of the source
  is made of ASCII characters only.
\<close>

datatype rx = Nul | Eps | Lit char | Cls "char list" | Word | Seq rx rx | Alt rx rx | Opt rx | Star rx

text \<open>The class \<^verbatim>\<open>\w\<close> of JavaScript: ASCII letters, digits and the underscore.\<close>

definition word_chars :: "char list" where
  "word_chars = ''abcdefghijklmnopqrstuvwxyzABCDEFGHIJKLMNOPQRSTUVWXYZ0123456789_''"

definition is_word :: "char \<Rightarrow> bool" where
  "is_word c = (c \<in> set word_chars)"

primrec nullable :: "rx \<Rightarrow> bool" where
  "nullable Nul = False"
| "nullable Eps = True"
| "nullable (Lit c) = False"
| "nullable (Cls cs) = False"
| "nullable Word = False"
| "nullable (Seq r s) = (nullable r \<and> nullable s)"
| "nullable (Alt r s) = (nullable r \<or> nullable s)"
| "nullable (Opt r) = True"
| "nullable (Star r) = True"

primrec deriv :: "char \<Rightarrow> rx \<Rightarrow> rx" where
  "deriv c Nul = Nul"
| "deriv c Eps = Nul"
| "deriv c (Lit d) = (if c = d then Eps else Nul)"
| "deriv c (Cls cs) = (if c \<in> set cs then Eps else Nul)"
| "deriv c Word = (if is_word c then Eps else Nul)"
| "deriv c (Seq r s) =
     (if nullable r then Alt (Seq (deriv c r) s) (deriv c s) else Seq (deriv c r) s)"
| "deriv c (Alt r s) = Alt (deriv c r) (deriv c s)"
| "deriv c (Opt r) = deriv c r"
| "deriv c (Star r) = Seq (deriv c r) (Star r)"

text \<open>\<open>matches r s\<close>: the whole of \<open>s\<close> is matched by \<open>r\<close>.\<close>

definition matches :: "rx \<Rightarrow> string \<Rightarrow> bool" where
  "matches r s = nullable (fold deriv s r)"

text \<open>
  \<^verbatim>\<open>/R$/.test(s)\<close>: some suffix of \<open>s\<close> is matched by \<open>R\<close> (no flag is used in the source, so
  \<^verbatim>\<open>$\<close> is the end of the input). \<^verbatim>\<open>/^R/.test(s)\<close>: some prefix of \<open>s\<close> is matched.
\<close>

definition test_end :: "rx \<Rightarrow> string \<Rightarrow> bool" where
  "test_end r s = list_ex (matches r) (suffixes s)"

definition test_start :: "rx \<Rightarrow> string \<Rightarrow> bool" where
  "test_start r s = list_ex (matches r) (prefixes s)"

text \<open>A run of literal characters.\<close>

definition lits :: "string \<Rightarrow> rx" where
  "lits w = foldr (\<lambda>c r. Seq (Lit c) r) w Eps"

text \<open>\<^verbatim>\<open>/\.([tj]sx?)$/\<close>, tested on the referer (line 102).\<close>

definition re_referer :: rx where
  "re_referer = Seq (Lit CHR ''.'') (Seq (Cls ''tj'') (Seq (Lit CHR ''s'') (Opt (Lit CHR ''x''))))"

text \<open>\<^verbatim>\<open>/\.\w{2,}$/\<close>, tested on the request path (line 102).\<close>

definition re_multi_ext :: rx where
  "re_multi_ext = Seq (Lit CHR ''.'') (Seq Word (Seq Word (Star Word)))"

text \<open>\<^verbatim>\<open>/\.css\.js$/\<close> (line 124).\<close>

definition re_css_js :: rx where
  "re_css_js = lits ''.css.js''"

text \<open>\<^verbatim>\<open>/\.([mc]js|[tj]sx?)$/\<close> (line 126).\<close>

definition re_module_ext :: rx where
  "re_module_ext = Seq (Lit CHR ''.'')
     (Alt (Seq (Cls ''mc'') (lits ''js''))
          (Seq (Cls ''tj'') (Seq (Lit CHR ''s'') (Opt (Lit CHR ''x'')))))"

text \<open>\<^verbatim>\<open>/\.(css|s[ac]ss)$/\<close> (line 128).\<close>

definition re_style_ext :: rx where
  "re_style_ext = Seq (Lit CHR ''.'')
     (Alt (lits ''css'') (Seq (Lit CHR ''s'') (Seq (Cls ''ac'') (lits ''ss''))))"

text \<open>\<^verbatim>\<open>/\.module\.css$/\<close> (lines 80 and 241).\<close>

definition re_module_css :: rx where
  "re_module_css = lits ''.module.css''"

text \<open>\<^verbatim>\<open>/^\.?\.?\//\<close> (line 182).\<close>

definition re_rel_abs :: rx where
  "re_rel_abs = Seq (Opt (Lit CHR ''.'')) (Seq (Opt (Lit CHR ''.'')) (Lit CHR ''/''))"

text \<open>
  \<^verbatim>\<open>s.replace(/^w/, '')\<close> and \<^verbatim>\<open>s.replace(/w$/, '')\<close> for a literal \<open>w\<close>: the source uses them
  with \<^verbatim>\<open>/^\.\//\<close> (lines 103 and 114) and \<^verbatim>\<open>/\.js$/\<close> (line 201).
\<close>

definition replace_start :: "string \<Rightarrow> string \<Rightarrow> string" where
  "replace_start w s = (if test_start (lits w) s then drop (length w) s else s)"

definition replace_end :: "string \<Rightarrow> string \<Rightarrow> string" where
  "replace_end w s = (if test_end (lits w) s then take (length s - length w) s else s)"

text \<open>
  \<^verbatim>\<open>s.split(sep)\<close> for a separator of one character, and \<^verbatim>\<open>xs.join(j)\<close>.
\<close>

fun split_str :: "char \<Rightarrow> string \<Rightarrow> string list" where
  "split_str sep [] = [[]]"
| "split_str sep (c # cs) =
     (if c = sep then [] # split_str sep cs
      else (c # hd (split_str sep cs)) # tl (split_str sep cs))"

fun join_str :: "string \<Rightarrow> string list \<Rightarrow> string" where
  "join_str j [] = []"
| "join_str j [x] = x"
| "join_str j (x # y # ys) = x @ j @ join_str j (y # ys)"

section \<open>Values, collaborators and state\<close>

text \<open>
  A value thrown in JavaScript: \<^verbatim>\<open>null\<close>, \<^verbatim>\<open>undefined\<close>, or anything else (an
  \<^verbatim>\<open>Error\<close> object, named here by its message). \<^verbatim>\<open>e == null\<close> holds of the first two only.
\<close>

datatype thrown = ThrownNull | ThrownUndefined | ThrownError string

fun is_nullish :: "thrown \<Rightarrow> bool" where
  "is_nullish ThrownNull = True"
| "is_nullish ThrownUndefined = True"
| "is_nullish (ThrownError m) = False"

text \<open>
  What a transform gives back to the request handler: \<^verbatim>\<open>false\<close>, a nullish value, or
  content; or it throws.
\<close>

datatype retval = RetFalse | RetNullish | RetContent string

datatype outcome = Return retval | Throw thrown

text \<open>The result of \<^verbatim>\<open>container.load(file)\<close>: a string, an object with a code, or nothing.\<close>

datatype load_result = LoadString string | LoadObject string | LoadUndefined

datatype platform = Posix | Win32

text \<open>\<^verbatim>\<open>path.sep\<close>: a slash, or a backslash on Windows.\<close>

fun sep :: "platform \<Rightarrow> char" where
  "sep Posix = CHR ''/''"
| "sep Win32 = CHR 0x5C"

text \<open>
  Every effect the middleware has on its collaborators and on the shared cache, in the order
  in which the code performs it.
\<close>

datatype effect =
    WatchChange string
  | SetTimeout nat
  | OnChange "string list" nat
  | CacheSet string string
  | CacheDelete string
  | SetHeader string string
  | WriteHead nat nat string int
  | End string
  | Next "thrown option"
  | OnError thrown
  | FsStat string
  | FsReadFile string
  | FsMkdir string
  | FsWriteFile string string
  | NonRollupTransform string string
  | TransformImports string string
  | CreatePluginContainer
  | ContainerLoad string
  | ContainerTransform "string option" string
  | ModularizeCss string string
  | GetWmrClient

text \<open>
  The options of \<^verbatim>\<open>wmrMiddleware\<close> and the imported functions it calls. The path library,
  the file system, the plugin container, \<^verbatim>\<open>transformImports\<close>, \<^verbatim>\<open>modularizeCss\<close>,
  \<^verbatim>\<open>getWmrClient\<close>, \<^verbatim>\<open>mime\<close> and the clock are not part of this file of the repository:
  they are parameters. A collaborator that can throw returns a sum, \<open>Inl\<close> the thrown value.
  The callbacks \<^verbatim>\<open>onError\<close>, \<^verbatim>\<open>onChange\<close>, \<^verbatim>\<open>next\<close> and \<^verbatim>\<open>NonRollup.watchChange\<close> are
  taken to be supplied and to return normally; a call of one is an effect of the trace.
  \<open>container_load\<close> and \<open>container_transform\<close> also give the files the container passes to
  its \<^verbatim>\<open>writeFile\<close> option while it runs.
\<close>

record env =
  cwd :: string
  out :: string
  os :: platform
  path_resolve :: "string \<Rightarrow> string \<Rightarrow> string"
  path_dirname :: "string \<Rightarrow> string"
  posix_normalize :: "string \<Rightarrow> string"
  posix_join :: "string \<Rightarrow> string \<Rightarrow> string"
  posix_relative :: "string \<Rightarrow> string \<Rightarrow> string"
  mime_getType :: "string \<Rightarrow> string option"
  fs_isFile :: "string \<Rightarrow> bool"
  fs_readFile :: "string \<Rightarrow> thrown + string"
  fs_mkdir :: "string \<Rightarrow> thrown option"
  fs_writeFile :: "string \<Rightarrow> string \<Rightarrow> thrown option"
  NonRollup_transform :: "string \<Rightarrow> string \<Rightarrow> thrown + string"
  transformImports :: "string \<Rightarrow> string \<Rightarrow> (string \<Rightarrow> string option) \<Rightarrow> thrown + string"
  container_load :: "string \<Rightarrow> (string \<times> string) list \<times> (thrown + load_result)"
  container_transform :: "string option \<Rightarrow> string \<Rightarrow> (string \<times> string) list \<times> (thrown + string)"
  modularizeCss :: "string \<Rightarrow> string \<Rightarrow> thrown + string"
  getWmrClient :: outcome
  now_start :: int
  now_end :: int

text \<open>
  The state shared by the watcher and the request handler: the map \<^verbatim>\<open>WRITE_CACHE\<close>, the set
  \<^verbatim>\<open>pendingChanges\<close> (a JavaScript \<^verbatim>\<open>Set\<close> keeps insertion order: a list without
  duplicates), the delays of the timers that are scheduled and have not fired, and the trace
  of effects.
\<close>

record state =
  WRITE_CACHE :: "string \<rightharpoonup> string"
  pendingChanges :: "string list"
  timers :: "nat list"
  trace :: "effect list"

definition init_state :: state where
  "init_state = \<lparr>WRITE_CACHE = Map.empty, pendingChanges = [], timers = [], trace = []\<rparr>"

definition emit :: "effect \<Rightarrow> state \<Rightarrow> state" where
  "emit e s = s\<lparr>trace := trace s @ [e]\<rparr>"

text \<open>\<^verbatim>\<open>WRITE_CACHE.set\<close>, \<^verbatim>\<open>WRITE_CACHE.delete\<close> and \<^verbatim>\<open>pendingChanges.add\<close>.\<close>

definition cache_set :: "string \<Rightarrow> string \<Rightarrow> state \<Rightarrow> state" where
  "cache_set k v s = emit (CacheSet k v) (s\<lparr>WRITE_CACHE := (WRITE_CACHE s)(k \<mapsto> v)\<rparr>)"

definition cache_delete :: "string \<Rightarrow> state \<Rightarrow> state" where
  "cache_delete k s = emit (CacheDelete k) (s\<lparr>WRITE_CACHE := (WRITE_CACHE s)(k := None)\<rparr>)"

definition set_add :: "string \<Rightarrow> string list \<Rightarrow> string list" where
  "set_add x xs = (if x \<in> set xs then xs else xs @ [x])"

section \<open>The change watcher\<close>

text \<open>\<^verbatim>\<open>filename.split(sep).join(posix.sep)\<close> (line 74).\<close>

definition to_posix :: "env \<Rightarrow> string \<Rightarrow> string" where
  "to_posix env filename = join_str ''/'' (split_str (sep (os env)) filename)"

text \<open>\<^verbatim>\<open>flushChanges\<close> (lines 68 to 71).\<close>

definition flushChanges :: "state \<Rightarrow> state" where
  "flushChanges s = (emit (OnChange (pendingChanges s) 0) s)\<lparr>pendingChanges := []\<rparr>"

text \<open>The callback of \<^verbatim>\<open>watcher.on('change', ...)\<close> (lines 72 to 81).\<close>

definition watcher_on_change :: "env \<Rightarrow> string \<Rightarrow> state \<Rightarrow> state" where
  "watcher_on_change env filename0 s0 =
     (let s1 = emit (WatchChange (path_resolve env (cwd env) filename0)) s0;
          filename = to_posix env filename0;
          s2 = (if pendingChanges s1 = []
                then emit (SetTimeout 60) (s1\<lparr>timers := timers s1 @ [60]\<rparr>) else s1);
          s3 = s2\<lparr>pendingChanges := set_add (''/'' @ filename) (pendingChanges s2)\<rparr>;
          s4 = cache_delete filename s3
      in if test_end re_module_css filename then cache_delete (filename @ ''.js'') s4 else s4)"

text \<open>
  The event loop, as far as the watcher is concerned: a file changes, or the oldest scheduled
  timer fires and runs \<^verbatim>\<open>flushChanges\<close>. A timer can fire only when one is scheduled; when
  it fires after its delay is left to the run, which is a list of events.
\<close>

datatype wevent = FileChange string | TimerFires

fun watcher_step :: "env \<Rightarrow> wevent \<Rightarrow> state \<Rightarrow> state option" where
  "watcher_step env (FileChange filename) s = Some (watcher_on_change env filename s)"
| "watcher_step env TimerFires s =
     (case timers s of [] \<Rightarrow> None | d # ds \<Rightarrow> Some (flushChanges (s\<lparr>timers := ds\<rparr>)))"

fun watcher_run :: "env \<Rightarrow> wevent list \<Rightarrow> state \<Rightarrow> state option" where
  "watcher_run env [] s = Some s"
| "watcher_run env (ev # evs) s =
     (case watcher_step env ev s of None \<Rightarrow> None | Some s' \<Rightarrow> watcher_run env evs s')"

section \<open>The cache store\<close>

text \<open>
  \<^verbatim>\<open>writeCacheFile\<close> (lines 285 to 292). The result is how the promise of the function
  settles (\<open>None\<close>: fulfilled, \<open>Some e\<close>: rejected with \<open>e\<close>) and the state. No caller in the
  file awaits the promise.
\<close>

definition writeCacheFile :: "env \<Rightarrow> string \<Rightarrow> string \<Rightarrow> string \<Rightarrow> state \<Rightarrow> thrown option \<times> state" where
  "writeCacheFile env rootDir fileName data s =
     (let s1 = cache_set fileName data s;
          filePath = path_resolve env rootDir fileName
      in if path_dirname env filePath \<noteq> rootDir then
           (let s2 = emit (FsMkdir (path_dirname env filePath)) s1
            in case fs_mkdir env (path_dirname env filePath) of
                 Some e \<Rightarrow> (Some e, s2)
               | None \<Rightarrow> (fs_writeFile env filePath data, emit (FsWriteFile filePath data) s2))
         else (fs_writeFile env filePath data, emit (FsWriteFile filePath data) s1))"

text \<open>
  The \<^verbatim>\<open>writeFile\<close> option given to the container of \<^verbatim>\<open>TRANSFORMS.cssModule\<close> (lines 212
  to 214), applied to the files the container writes, in order.
\<close>

fun write_emitted :: "env \<Rightarrow> (string \<times> string) list \<Rightarrow> state \<Rightarrow> state" where
  "write_emitted env [] s = s"
| "write_emitted env ((filename, source) # fs) s =
     write_emitted env fs (snd (writeCacheFile env (out env) filename source s))"

section \<open>The transforms\<close>

record ctx =
  ctx_id :: string
  ctx_file :: string
  ctx_path :: string

text \<open>\<^verbatim>\<open>resolveId\<close> of \<^verbatim>\<open>TRANSFORMS.js\<close> (lines 176 to 186).\<close>

definition resolveId :: "string \<Rightarrow> string" where
  "resolveId spec0 =
     (if spec0 = ''wmr'' then ''/_wmr.js''
      else (let spec1 = (if suffix ''.css'' spec0 then spec0 @ ''.js'' else spec0)
            in if \<not> test_start re_rel_abs spec1 then ''/@npm/'' @ spec1 else spec1))"

text \<open>
  \<^verbatim>\<open>resolveId\<close> of \<^verbatim>\<open>TRANSFORMS.cssModule\<close> (lines 228 to 231): any specifier but
  \<^verbatim>\<open>wmr\<close> is reported on the console and left unresolved.
\<close>

definition resolveId_cssModule :: "string \<Rightarrow> string option" where
  "resolveId_cssModule spec0 = (if spec0 = ''wmr'' then Some ''/_wmr.js'' else None)"

text \<open>\<^verbatim>\<open>TRANSFORMS.js\<close> (lines 163 to 192).\<close>

definition TRANSFORMS_js :: "env \<Rightarrow> ctx \<Rightarrow> state \<Rightarrow> outcome \<times> state" where
  "TRANSFORMS_js env c s =
     (let s1 = emit (SetHeader ''content-type'' ''application/javascript'') s
      in case WRITE_CACHE s1 (ctx_id c) of
           Some v \<Rightarrow> (Return (RetContent v), s1)
         | None \<Rightarrow>
            (let p = path_resolve env (cwd env) (ctx_file c);
                 s2 = emit (FsReadFile p) s1
             in case fs_readFile env p of
                  Inl e \<Rightarrow> (Throw e, s2)
                | Inr code1 \<Rightarrow>
                   (let s3 = emit (NonRollupTransform code1 (ctx_id c)) s2
                    in case NonRollup_transform env code1 (ctx_id c) of
                         Inl e \<Rightarrow> (Throw e, s3)
                       | Inr code2 \<Rightarrow>
                          (let s4 = emit (TransformImports code2 (ctx_id c)) s3
                           in case transformImports env code2 (ctx_id c) (\<lambda>spec. Some (resolveId spec)) of
                                Inl e \<Rightarrow> (Throw e, s4)
                              | Inr code3 \<Rightarrow>
                                 (Return (RetContent code3),
                                  snd (writeCacheFile env (out env) (ctx_id c) code3 s4))))))"

text \<open>\<^verbatim>\<open>TRANSFORMS.cssModule\<close> (lines 195 to 237).\<close>

definition TRANSFORMS_cssModule :: "env \<Rightarrow> ctx \<Rightarrow> state \<Rightarrow> outcome \<times> state" where
  "TRANSFORMS_cssModule env c s =
     (let s1 = emit (SetHeader ''content-type'' ''application/javascript'') s
      in case WRITE_CACHE s1 (ctx_id c) of
           Some v \<Rightarrow> (Return (RetContent v), s1)
         | None \<Rightarrow>
            (let file = replace_end ''.js'' (ctx_file c);
                 s2 = emit (CreatePluginContainer) s1;
                 s3 = write_emitted env (fst (container_load env file)) (emit (ContainerLoad file) s2)
             in case snd (container_load env file) of
                  Inl e \<Rightarrow> (Throw e, s3)
                | Inr result \<Rightarrow>
                   (let code1 = (case result of
                                   LoadString str \<Rightarrow> Some str
                                 | LoadObject str \<Rightarrow> Some str
                                 | LoadUndefined \<Rightarrow> None);
                        s4 = write_emitted env (fst (container_transform env code1 (ctx_id c)))
                               (emit (ContainerTransform code1 (ctx_id c)) s3)
                    in case snd (container_transform env code1 (ctx_id c)) of
                         Inl e \<Rightarrow> (Throw e, s4)
                       | Inr code2 \<Rightarrow>
                          (let s5 = emit (TransformImports code2 (ctx_id c)) s4
                           in case transformImports env code2 (ctx_id c) resolveId_cssModule of
                                Inl e \<Rightarrow> (Throw e, s5)
                              | Inr code3 \<Rightarrow>
                                 (Return (RetContent code3),
                                  snd (writeCacheFile env (out env) (ctx_id c) code3 s5))))))"

text \<open>\<^verbatim>\<open>TRANSFORMS.css\<close> (lines 240 to 261).\<close>

definition TRANSFORMS_css :: "env \<Rightarrow> ctx \<Rightarrow> state \<Rightarrow> outcome \<times> state" where
  "TRANSFORMS_css env c s =
     (if \<not> test_end re_module_css (ctx_path c) then (Throw ThrownNull, s)
      else case WRITE_CACHE s (ctx_id c) of
             Some v \<Rightarrow> (Return (RetContent v), s)
           | None \<Rightarrow>
              (let p = path_resolve env (cwd env) (ctx_file c);
                   s1 = emit (FsReadFile p) s
               in case fs_readFile env p of
                    Inl e \<Rightarrow> (Throw e, s1)
                  | Inr code1 \<Rightarrow>
                     (let s2 = emit (ModularizeCss code1 (ctx_id c)) s1
                      in case modularizeCss env code1 (ctx_id c) of
                           Inl e \<Rightarrow> (Throw e, s2)
                         | Inr code2 \<Rightarrow>
                            (Return (RetContent code2),
                             snd (writeCacheFile env (out env) (ctx_id c) code2 s2)))))"

text \<open>\<^verbatim>\<open>TRANSFORMS.generic\<close> (lines 264 to 276).\<close>

definition TRANSFORMS_generic :: "state \<Rightarrow> outcome \<times> state" where
  "TRANSFORMS_generic s = (Return RetFalse, s)"

section \<open>The request handler\<close>

datatype transform = RuntimeClient | CssModule | Js | Css | Generic

text \<open>
  \<^verbatim>\<open>transform.name\<close>, written into the \<^verbatim>\<open>server-timing\<close> header: the key of the method in
  \<^verbatim>\<open>TRANSFORMS\<close>, and the name that \<^verbatim>\<open>bind\<close> gives to \<^verbatim>\<open>getWmrClient.bind(null)\<close>.
\<close>

fun transform_name :: "transform \<Rightarrow> string" where
  "transform_name RuntimeClient = ''bound getWmrClient''"
| "transform_name CssModule = ''cssModule''"
| "transform_name Js = ''js''"
| "transform_name Css = ''css''"
| "transform_name Generic = ''generic''"

text \<open>The choice of the transform (lines 121 to 132).\<close>

definition select_transform :: "string \<Rightarrow> string \<Rightarrow> transform" where
  "select_transform path file =
     (if path = ''/_wmr.js'' then RuntimeClient
      else if test_end re_css_js file then CssModule
      else if test_end re_module_ext file then Js
      else if test_end re_style_ext file then Css
      else Generic)"

fun run_transform :: "env \<Rightarrow> transform \<Rightarrow> ctx \<Rightarrow> state \<Rightarrow> outcome \<times> state" where
  "run_transform env RuntimeClient c s = (getWmrClient env, emit GetWmrClient s)"
| "run_transform env CssModule c s = TRANSFORMS_cssModule env c s"
| "run_transform env Js c s = TRANSFORMS_js env c s"
| "run_transform env Css c s = TRANSFORMS_css env c s"
| "run_transform env Generic c s = TRANSFORMS_generic s"

text \<open>
  The id of a file: \<^verbatim>\<open>posix.relative(cwd, file).replace(/^\.\//, '')\<close> (lines 103 and 114).
\<close>

definition module_id :: "env \<Rightarrow> string \<Rightarrow> string" where
  "module_id env file = replace_start ''./'' (posix_relative env (cwd env) file)"

text \<open>\<^verbatim>\<open>isCached\<close> (line 103).\<close>

definition isCached :: "env \<Rightarrow> state \<Rightarrow> string \<Rightarrow> bool" where
  "isCached env s file = (WRITE_CACHE s (module_id env file) \<noteq> None)"

text \<open>
  The file that a request names (lines 102 to 111). \<^verbatim>\<open>isFile\<close> (line 104) is \<open>fs_isFile\<close>:
  \<^verbatim>\<open>fs.stat\<close> found a regular file, and a failure of \<^verbatim>\<open>fs.stat\<close> counts as no file.
\<close>

definition resolve_file :: "env \<Rightarrow> string option \<Rightarrow> string \<Rightarrow> string \<Rightarrow> state \<Rightarrow> string \<times> state" where
  "resolve_file env referer path file s =
     (if test_end re_referer (case referer of None \<Rightarrow> [] | Some r \<Rightarrow> r)
         \<and> \<not> test_end re_multi_ext path then
        (if isCached env s (file @ ''.tsx'') then (file @ ''.tsx'', s)
         else if isCached env s (file @ ''.ts'') then (file @ ''.ts'', s)
         else (let s1 = emit (FsStat (file @ ''.tsx'')) s
               in if fs_isFile env (file @ ''.tsx'') then (file @ ''.tsx'', s1)
                  else (let s2 = emit (FsStat (file @ ''.ts'')) s1
                        in if fs_isFile env (file @ ''.ts'') then (file @ ''.ts'', s2)
                           else (file, s2))))
      else (file, s))"

record request =
  req_path :: string
  req_referer :: "string option"

text \<open>
  Lines 96 to 132 of the handler: the file, its id, the \<^verbatim>\<open>content-type\<close> header from the
  file's extension, the context and the transform.
\<close>

definition prepare :: "env \<Rightarrow> request \<Rightarrow> state \<Rightarrow> transform \<times> ctx \<times> state" where
  "prepare env req s =
     (let path = posix_normalize env (req_path req);
          fs1 = resolve_file env (req_referer req) path (posix_join env (cwd env) path) s;
          file = fst fs1;
          s2 = (case mime_getType env file of
                  None \<Rightarrow> snd fs1
                | Some ty \<Rightarrow> emit (SetHeader ''content-type'' ty) (snd fs1))
      in (select_transform path file,
          \<lparr>ctx_id = module_id env file, ctx_file = file, ctx_path = path\<rparr>,
          s2))"

text \<open>The handler that \<^verbatim>\<open>wmrMiddleware\<close> returns (lines 88 to 158).\<close>

definition wmrMiddleware :: "env \<Rightarrow> request \<Rightarrow> state \<Rightarrow> state" where
  "wmrMiddleware env req s =
     (if prefix ''/@npm/'' (posix_normalize env (req_path req)) then emit (Next None) s
      else (case prepare env req s of (t, c, s2) \<Rightarrow>
             (case run_transform env t c s2 of
                (Return RetFalse, s3) \<Rightarrow> emit (Next None) s3
              | (Return RetNullish, s3) \<Rightarrow> s3
              | (Return (RetContent result), s3) \<Rightarrow>
                  emit (End result)
                    (emit (WriteHead 200 (length result) (transform_name t)
                             (now_end env - now_start env)) s3)
              | (Throw e, s3) \<Rightarrow>
                  (if is_nullish e then emit (Next None) s3
                   else emit (Next (Some e)) (emit (OnError e) s3)))))"

section \<open>Notions of the specification\<close>

text \<open>
  First match among the four candidates of the specification, in its order; the path itself
  when none matches. A cached entry for a file is an entry of \<^verbatim>\<open>WRITE_CACHE\<close> under the id
  of the file.
\<close>

definition first_match :: "env \<Rightarrow> state \<Rightarrow> string \<Rightarrow> string" where
  "first_match env s file =
     (case find fst
        [(WRITE_CACHE s (module_id env (file @ ''.tsx'')) \<noteq> None, file @ ''.tsx''),
         (WRITE_CACHE s (module_id env (file @ ''.ts'')) \<noteq> None, file @ ''.ts''),
         (fs_isFile env (file @ ''.tsx''), file @ ''.tsx''),
         (fs_isFile env (file @ ''.ts''), file @ ''.ts'')] of
        Some (b, f) \<Rightarrow> f
      | None \<Rightarrow> file)"

text \<open>
  A scoped stylesheet in the words of the specification: \<^verbatim>\<open>.module.\<close> before a stylesheet
  extension, where the stylesheet extensions are the three that select the stylesheet
  transform.
\<close>

definition scoped_by_convention :: "string \<Rightarrow> bool" where
  "scoped_by_convention path =
     list_ex (\<lambda>ext. suffix (''.module.'' @ ext) path) [''css'', ''sass'', ''scss'']"

text \<open>Effects that write the response, that touch the disk, that call a collaborator.\<close>

fun is_response_write :: "effect \<Rightarrow> bool" where
  "is_response_write (WriteHead st len name dur) = True"
| "is_response_write (End body) = True"
| "is_response_write e = False"

fun is_disk_io :: "effect \<Rightarrow> bool" where
  "is_disk_io (FsMkdir d) = True"
| "is_disk_io (FsWriteFile p d) = True"
| "is_disk_io e = False"

fun is_notification :: "effect \<Rightarrow> bool" where
  "is_notification (OnChange cs d) = True"
| "is_notification e = False"

fun is_schedule :: "effect \<Rightarrow> bool" where
  "is_schedule (SetTimeout d) = True"
| "is_schedule e = False"

text \<open>A bare specifier: no leading \<^verbatim>\<open>/\<close>, \<^verbatim>\<open>./\<close> or \<^verbatim>\<open>../\<close>.\<close>

definition bare :: "string \<Rightarrow> bool" where
  "bare spec = (\<not> prefix ''/'' spec \<and> \<not> prefix ''./'' spec \<and> \<not> prefix ''../'' spec)"

text \<open>The part of the trace that writes the response.\<close>

definition response_writes :: "state \<Rightarrow> effect list" where
  "response_writes s = filter is_response_write (trace s)"

text \<open>The web-relative path that the watcher records for a changed file (line 76).\<close>

definition web_path :: "env \<Rightarrow> string \<Rightarrow> string" where
  "web_path env filename = ''/'' @ to_posix env filename"

text \<open>
  The header that the module transform and the proxy transform set first (lines 164 and 196),
  and the transforms that look their id up in the cache.
\<close>

definition js_header :: effect where
  "js_header = SetHeader ''content-type'' ''application/javascript''"

definition cached_transform :: "transform \<Rightarrow> bool" where
  "cached_transform t = (t = Js \<or> t = CssModule \<or> t = Css)"

text \<open>The notifications sent and the flushes scheduled so far.\<close>

definition notifications :: "state \<Rightarrow> effect list" where
  "notifications s = filter is_notification (trace s)"

definition schedules :: "state \<Rightarrow> effect list" where
  "schedules s = filter is_schedule (trace s)"

text \<open>
  At most one flush is scheduled, and one is scheduled exactly while changes are pending.
\<close>

definition watcher_inv :: "state \<Rightarrow> bool" where
  "watcher_inv s = (timers s = (if pendingChanges s = [] then [] else [60]))"

text \<open>A concrete environment and a cache, on which the theorems below are instantiated.\<close>

definition example_env :: env where
  "example_env =
     \<lparr>cwd = ''/app'', out = ''.dist'', os = Posix,
      path_resolve = (\<lambda>a b. if prefix ''/'' b then b else a @ ''/'' @ b),
      path_dirname = (\<lambda>p. rev (drop 1 (dropWhile (\<lambda>c. c \<noteq> CHR ''/'') (rev p)))),
      posix_normalize = (\<lambda>p. p),
      posix_join = (\<lambda>a b. a @ b),
      posix_relative = (\<lambda>a b. drop (length a + 1) b),
      mime_getType = (\<lambda>f. None),
      fs_isFile = (\<lambda>f. f = ''/app/main.tsx'' \<or> f = ''/app/main.ts''),
      fs_readFile = (\<lambda>p. if p \<in> set [''/app/util.js'', ''/app/a.module.css'', ''/app/a.module.scss'']
                          then Inr ''.a{}'' else Inl (ThrownError ''ENOENT'')),
      fs_mkdir = (\<lambda>d. Some (ThrownError ''EACCES'')),
      fs_writeFile = (\<lambda>p d. Some (ThrownError ''EACCES'')),
      NonRollup_transform = (\<lambda>code i. Inr code),
      transformImports = (\<lambda>code i r. Inr code),
      container_load = (\<lambda>f. ([], Inr LoadUndefined)),
      container_transform = (\<lambda>code i. ([], Inl (ThrownError ''no code''))),
      modularizeCss = (\<lambda>code i. Inr code),
      getWmrClient = Return (RetContent ''client''),
      now_start = 0, now_end = 1\<rparr>"

definition example_cached :: state where
  "example_cached = init_state\<lparr>WRITE_CACHE :=
     [''src/a.module.css'' \<mapsto> ''.a_x1{}'', ''src/a.module.css.js'' \<mapsto> ''export default {}'',
      ''src/b.js'' \<mapsto> ''b'']\<rparr>"

definition example_request :: request where
  "example_request = \<lparr>req_path = ''/main'', req_referer = Some ''http://localhost:8080/index.tsx''\<rparr>"

definition missing_request :: request where
  "missing_request = \<lparr>req_path = ''/missing.js'', req_referer = None\<rparr>"

definition missing_ctx :: ctx where
  "missing_ctx = \<lparr>ctx_id = ''missing.js'', ctx_file = ''/app/missing.js'', ctx_path = ''/missing.js''\<rparr>"

definition sass_request :: request where
  "sass_request = \<lparr>req_path = ''/a.module.scss'', req_referer = None\<rparr>"

definition sass_ctx :: ctx where
  "sass_ctx = \<lparr>ctx_id = ''a.module.scss'', ctx_file = ''/app/a.module.scss'',
     ctx_path = ''/a.module.scss''\<rparr>"

definition plain_css_request :: request where
  "plain_css_request = \<lparr>req_path = ''/site.css'', req_referer = None\<rparr>"

definition plain_css_ctx :: ctx where
  "plain_css_ctx = \<lparr>ctx_id = ''site.css'', ctx_file = ''/app/site.css'', ctx_path = ''/site.css''\<rparr>"

definition module_css_ctx :: ctx where
  "module_css_ctx = \<lparr>ctx_id = ''a.module.css'', ctx_file = ''/app/a.module.css'',
     ctx_path = ''/a.module.css''\<rparr>"

definition util_ctx :: ctx where
  "util_ctx = \<lparr>ctx_id = ''util.js'', ctx_file = ''/app/util.js'', ctx_path = ''/util.js''\<rparr>"

text \<open>The example environment after the source tree has become unreadable.\<close>

definition offline_env :: env where
  "offline_env = example_env\<lparr>fs_readFile := (\<lambda>p. Inl (ThrownError ''EIO'')),
     NonRollup_transform := (\<lambda>code i. Inl (ThrownError ''SyntaxError''))\<rparr>"

text \<open>A cache that holds the module \<^verbatim>\<open>main.ts\<close>, and one that holds \<^verbatim>\<open>main.tsx\<close> as well.\<close>

definition typed_cached :: state where
  "typed_cached = init_state\<lparr>WRITE_CACHE := [''main.ts'' \<mapsto> ''export {}'']\<rparr>"

definition typed_cached_both :: state where
  "typed_cached_both = init_state\<lparr>WRITE_CACHE :=
     [''main.ts'' \<mapsto> ''export {}'', ''main.tsx'' \<mapsto> ''export default 1'']\<rparr>"

section \<open>What the regular expressions accept\<close>

definition conc :: "string set \<Rightarrow> string set \<Rightarrow> string set" where
  "conc A B = {u @ v | u v. u \<in> A \<and> v \<in> B}"

inductive_set star :: "string set \<Rightarrow> string set" for A :: "string set" where
  star_nil: "[] \<in> star A"
| star_app: "u \<in> A \<Longrightarrow> v \<in> star A \<Longrightarrow> u @ v \<in> star A"

primrec lang :: "rx \<Rightarrow> string set" where
  "lang Nul = {}"
| "lang Eps = {[]}"
| "lang (Lit c) = {[c]}"
| "lang (Cls cs) = (\<lambda>c. [c]) ` set cs"
| "lang Word = {[c] | c. is_word c}"
| "lang (Seq r s) = conc (lang r) (lang s)"
| "lang (Alt r s) = lang r \<union> lang s"
| "lang (Opt r) = insert [] (lang r)"
| "lang (Star r) = star (lang r)"

lemma nullable_lang: "nullable r \<longleftrightarrow> [] \<in> lang r"
  by (induction r) (auto simp: conc_def intro: star.star_nil)

lemma conc_Cons: "c # w \<in> conc A B \<longleftrightarrow>
   ([] \<in> A \<and> c # w \<in> B) \<or> (\<exists>u v. w = u @ v \<and> c # u \<in> A \<and> v \<in> B)"
  unfolding conc_def by (auto simp: Cons_eq_append_conv)

lemma star_Cons_dest:
  assumes "x \<in> star A" and "x = c # w"
  shows "\<exists>u v. w = u @ v \<and> c # u \<in> A \<and> v \<in> star A"
  using assms
proof (induction arbitrary: w rule: star.induct)
  case star_nil
  then show ?case by simp
next
  case (star_app u v)
  show ?case
  proof (cases u)
    case Nil
    with star_app show ?thesis by simp
  next
    case (Cons d u')
    with star_app.prems have "d = c" and "w = u' @ v" by simp_all
    with star_app.hyps(1,2) Cons show ?thesis by blast
  qed
qed

lemma star_Cons: "c # w \<in> star A \<longleftrightarrow> (\<exists>u v. w = u @ v \<and> c # u \<in> A \<and> v \<in> star A)"
proof
  assume "c # w \<in> star A"
  then show "\<exists>u v. w = u @ v \<and> c # u \<in> A \<and> v \<in> star A"
    by (rule star_Cons_dest) simp
next
  assume "\<exists>u v. w = u @ v \<and> c # u \<in> A \<and> v \<in> star A"
  then obtain u v where "w = u @ v" "c # u \<in> A" "v \<in> star A" by blast
  then show "c # w \<in> star A"
    using star.star_app [of "c # u" A v] by simp
qed

lemma lang_deriv: "w \<in> lang (deriv c r) \<longleftrightarrow> c # w \<in> lang r"
proof (induction r arbitrary: w)
  case (Seq r s)
  then show ?case
    by (auto simp: conc_Cons nullable_lang) (auto simp: conc_def)
next
  case (Star r)
  then show ?case
    by (auto simp: star_Cons) (auto simp: conc_def)
qed auto

lemma matches_lang: "matches r s \<longleftrightarrow> s \<in> lang r"
  unfolding matches_def
  by (induction s arbitrary: r) (simp_all add: nullable_lang lang_deriv)

lemma test_end_iff: "test_end r s \<longleftrightarrow> (\<exists>t \<in> lang r. suffix t s)"
  by (auto simp: test_end_def list_ex_iff matches_lang)

lemma test_start_iff: "test_start r s \<longleftrightarrow> (\<exists>t \<in> lang r. prefix t s)"
  by (auto simp: test_start_def list_ex_iff matches_lang)

lemma conc_single: "conc {u} B = (@) u ` B"
  by (auto simp: conc_def)

lemma conc_insert: "conc (insert u A) B = (@) u ` B \<union> conc A B"
  by (auto simp: conc_def)

lemma conc_empty: "conc {} B = {}"
  by (simp add: conc_def)

lemma lang_lits: "lang (lits w) = {w}"
  unfolding lits_def by (induction w) (simp_all add: conc_single)

lemma test_end_lits: "test_end (lits w) s \<longleftrightarrow> suffix w s"
  by (simp add: test_end_iff lang_lits)

lemma test_start_lits: "test_start (lits w) s \<longleftrightarrow> prefix w s"
  by (simp add: test_start_iff lang_lits)

lemma lang_re_referer: "lang re_referer = {''.ts'', ''.tsx'', ''.js'', ''.jsx''}"
  unfolding re_referer_def
  by (auto simp: conc_insert conc_single conc_empty)

lemma lang_re_module_ext:
  "lang re_module_ext = {''.mjs'', ''.cjs'', ''.ts'', ''.tsx'', ''.js'', ''.jsx''}"
  unfolding re_module_ext_def
  by (auto simp: conc_insert conc_single conc_empty lang_lits)

lemma lang_re_style_ext: "lang re_style_ext = {''.css'', ''.sass'', ''.scss''}"
  unfolding re_style_ext_def
  by (auto simp: conc_insert conc_single conc_empty lang_lits)

lemma lang_re_rel_abs: "lang re_rel_abs = {''/'', ''./'', ''../''}"
  unfolding re_rel_abs_def
  by (auto simp: conc_insert conc_single conc_empty)

lemma test_re_referer:
  "test_end re_referer s \<longleftrightarrow>
     suffix ''.ts'' s \<or> suffix ''.tsx'' s \<or> suffix ''.js'' s \<or> suffix ''.jsx'' s"
  by (simp add: test_end_iff lang_re_referer)

lemma test_re_module_ext:
  "test_end re_module_ext s \<longleftrightarrow>
     suffix ''.mjs'' s \<or> suffix ''.cjs'' s \<or> suffix ''.ts'' s \<or> suffix ''.tsx'' s
     \<or> suffix ''.js'' s \<or> suffix ''.jsx'' s"
  by (simp add: test_end_iff lang_re_module_ext)

lemma test_re_style_ext:
  "test_end re_style_ext s \<longleftrightarrow> suffix ''.css'' s \<or> suffix ''.sass'' s \<or> suffix ''.scss'' s"
  by (simp add: test_end_iff lang_re_style_ext)

lemma test_re_rel_abs:
  "test_start re_rel_abs s \<longleftrightarrow> prefix ''/'' s \<or> prefix ''./'' s \<or> prefix ''../'' s"
  by (simp add: test_start_iff lang_re_rel_abs)

lemma test_re_css_js: "test_end re_css_js s \<longleftrightarrow> suffix ''.css.js'' s"
  by (simp add: re_css_js_def test_end_lits)

lemma test_re_module_css: "test_end re_module_css s \<longleftrightarrow> suffix ''.module.css'' s"
  by (simp add: re_module_css_def test_end_lits)

lemma star_word: "w \<in> star {[c] | c. is_word c} \<longleftrightarrow> (\<forall>c \<in> set w. is_word c)"
proof
  assume "w \<in> star {[c] | c. is_word c}"
  then show "\<forall>c \<in> set w. is_word c"
    by (induction rule: star.induct) auto
next
  assume "\<forall>c \<in> set w. is_word c"
  then show "w \<in> star {[c] | c. is_word c}"
  proof (induction w)
    case Nil
    show ?case by (rule star.star_nil)
  next
    case (Cons a w)
    then have "[a] \<in> {[c] | c. is_word c}" and "w \<in> star {[c] | c. is_word c}"
      by simp_all
    then have "[a] @ w \<in> star {[c] | c. is_word c}"
      by (rule star.star_app)
    then show ?case by simp
  qed
qed

lemma lang_re_multi_ext:
  "t \<in> lang re_multi_ext \<longleftrightarrow>
     (\<exists>w. t = CHR ''.'' # w \<and> 2 \<le> length w \<and> (\<forall>c \<in> set w. is_word c))"
proof
  assume "t \<in> lang re_multi_ext"
  then obtain a b w where "t = CHR ''.'' # a # b # w" "is_word a" "is_word b"
      "w \<in> star {[c] | c. is_word c}"
    unfolding re_multi_ext_def by (auto simp: conc_def)
  then show "\<exists>w. t = CHR ''.'' # w \<and> 2 \<le> length w \<and> (\<forall>c \<in> set w. is_word c)"
    by (auto simp: star_word)
next
  assume "\<exists>w. t = CHR ''.'' # w \<and> 2 \<le> length w \<and> (\<forall>c \<in> set w. is_word c)"
  then obtain w where t: "t = CHR ''.'' # w" and len: "2 \<le> length w"
      and ws: "\<forall>c \<in> set w. is_word c"
    by blast
  from len obtain a b w' where w: "w = a # b # w'"
    by (cases w; cases "tl w") auto
  with ws have "is_word a" "is_word b" "w' \<in> star {[c] | c. is_word c}"
    by (auto simp: star_word)
  then have "[a] @ [b] @ w' \<in> conc {[c] | c. is_word c}
      (conc {[c] | c. is_word c} (star {[c] | c. is_word c}))"
    unfolding conc_def by blast
  then show "t \<in> lang re_multi_ext"
    unfolding re_multi_ext_def using t w by (simp add: conc_single)
qed

lemma test_re_multi_ext:
  "test_end re_multi_ext s \<longleftrightarrow>
     (\<exists>p w. s = p @ CHR ''.'' # w \<and> 2 \<le> length w \<and> (\<forall>c \<in> set w. is_word c))"
proof -
  have "test_end re_multi_ext s \<longleftrightarrow> (\<exists>t p. t \<in> lang re_multi_ext \<and> s = p @ t)"
    unfolding test_end_iff suffix_def by blast
  also have "\<dots> \<longleftrightarrow>
      (\<exists>p w. s = p @ CHR ''.'' # w \<and> 2 \<le> length w \<and> (\<forall>c \<in> set w. is_word c))"
    unfolding lang_re_multi_ext by blast
  finally show ?thesis .
qed

lemma replace_start_simp: "replace_start w s = (if prefix w s then drop (length w) s else s)"
  by (simp add: replace_start_def test_start_lits)

lemma replace_end_simp: "replace_end w s = (if suffix w s then take (length s - length w) s else s)"
  by (simp add: replace_end_def test_end_lits)

lemma split_str_nonempty: "split_str sp s \<noteq> []"
  by (induction s) auto

lemma join_split: "join_str [j] (split_str sp s) = map (\<lambda>c. if c = sp then j else c) s"
proof (induction s)
  case Nil
  show ?case by simp
next
  case (Cons c s)
  obtain x xs where sp: "split_str sp s = x # xs"
    using split_str_nonempty [of sp s] by (cases "split_str sp s") auto
  show ?case
  proof (cases "c = sp")
    case True
    with Cons sp show ?thesis by simp
  next
    case False
    with Cons sp show ?thesis by (cases xs) auto
  qed
qed

lemma to_posix_map: "to_posix env f = map (\<lambda>c. if c = sep (os env) then CHR ''/'' else c) f"
  by (simp add: to_posix_def join_split)

lemma to_posix_Posix: "os env = Posix \<Longrightarrow> to_posix env f = f"
  by (simp add: to_posix_map map_idI)

lemma map_eq_fixed:
  assumes "\<forall>c \<in> set w. \<forall>d. g d = c \<longleftrightarrow> d = c"
  shows "map g x = w \<longleftrightarrow> x = w"
  using assms
proof (induction w arbitrary: x)
  case Nil
  show ?case by simp
next
  case (Cons b w)
  then show ?case by (cases x) auto
qed

lemma suffix_map_iff:
  assumes "\<forall>c \<in> set w. \<forall>d. g d = c \<longleftrightarrow> d = c"
  shows "suffix w (map g s) \<longleftrightarrow> suffix w s"
proof -
  have "suffix w (map g s) \<longleftrightarrow> (\<exists>us vs. s = us @ vs \<and> map g vs = w)"
    unfolding suffix_def by (auto simp: map_eq_append_conv)
  also have "\<dots> \<longleftrightarrow> (\<exists>us. s = us @ w)"
    using map_eq_fixed [OF assms] by auto
  also have "\<dots> \<longleftrightarrow> suffix w s"
    unfolding suffix_def ..
  finally show ?thesis .
qed

lemma module_css_to_posix:
  "suffix ''.module.css'' (to_posix env f) \<longleftrightarrow> suffix ''.module.css'' f"
  unfolding to_posix_map
  by (rule suffix_map_iff) (cases "os env"; auto)

section \<open>State bookkeeping\<close>

lemma emit_simps [simp]:
  "trace (emit e s) = trace s @ [e]"
  "WRITE_CACHE (emit e s) = WRITE_CACHE s"
  "pendingChanges (emit e s) = pendingChanges s"
  "timers (emit e s) = timers s"
  by (simp_all add: emit_def)

lemma cache_delete_simps [simp]:
  "WRITE_CACHE (cache_delete k s) = (WRITE_CACHE s)(k := None)"
  "trace (cache_delete k s) = trace s @ [CacheDelete k]"
  "pendingChanges (cache_delete k s) = pendingChanges s"
  "timers (cache_delete k s) = timers s"
  by (simp_all add: cache_delete_def)

lemma cache_set_simps [simp]:
  "WRITE_CACHE (cache_set k v s) = (WRITE_CACHE s)(k \<mapsto> v)"
  "trace (cache_set k v s) = trace s @ [CacheSet k v]"
  "pendingChanges (cache_set k v s) = pendingChanges s"
  "timers (cache_set k v s) = timers s"
  by (simp_all add: cache_set_def)

lemma cache_after_change:
  "WRITE_CACHE (watcher_on_change env f s) =
     (if suffix ''.module.css'' f
      then (WRITE_CACHE s)(to_posix env f := None, to_posix env f @ ''.js'' := None)
      else (WRITE_CACHE s)(to_posix env f := None))"
  by (simp add: watcher_on_change_def Let_def test_re_module_css module_css_to_posix)

lemma example_env_posix: "to_posix example_env f = f"
  by (rule to_posix_Posix) (simp add: example_env_def)

lemma prefix_short_append:
  "length w \<le> length xs \<Longrightarrow> prefix w (xs @ ys) \<longleftrightarrow> prefix w xs"
  by (auto simp: prefix_append)

lemma rel_abs_append_js:
  assumes "suffix ''.css'' spec"
  shows "test_start re_rel_abs (spec @ ''.js'') \<longleftrightarrow> test_start re_rel_abs spec"
proof -
  from assms have "4 \<le> length spec"
    by (auto simp: suffix_def)
  then show ?thesis
    by (simp add: test_re_rel_abs prefix_short_append)
qed

lemma resolveId_cases:
  "resolveId spec =
     (if spec = ''wmr'' then ''/_wmr.js''
      else (if bare spec then ''/@npm/'' else [])
           @ spec @ (if suffix ''.css'' spec then ''.js'' else []))"
proof -
  have b: "\<And>x. test_start re_rel_abs x \<longleftrightarrow> \<not> bare x"
    by (auto simp: test_re_rel_abs bare_def)
  show ?thesis
  proof (cases "suffix ''.css'' spec")
    case True
    then show ?thesis
      using rel_abs_append_js [OF True] by (simp add: resolveId_def Let_def b)
  next
    case False
    then show ?thesis
      by (simp add: resolveId_def Let_def b)
  qed
qed

lemma css_js_is_module: "suffix ''.css.js'' f \<Longrightarrow> test_end re_module_ext f"
  by (auto simp: test_re_module_ext suffix_def)

lemma first_match_chain:
  "first_match env s f =
     (if WRITE_CACHE s (module_id env (f @ ''.tsx'')) \<noteq> None then f @ ''.tsx''
      else if WRITE_CACHE s (module_id env (f @ ''.ts'')) \<noteq> None then f @ ''.ts''
      else if fs_isFile env (f @ ''.tsx'') then f @ ''.tsx''
      else if fs_isFile env (f @ ''.ts'') then f @ ''.ts''
      else f)"
  by (simp add: first_match_def)

lemma resolve_file_typed:
  "test_end re_referer ref \<Longrightarrow> \<not> test_end re_multi_ext p \<Longrightarrow>
     fst (resolve_file env (Some ref) p f s) = first_match env s f"
  by (simp add: resolve_file_def first_match_chain isCached_def Let_def)

lemma module_id_explicit:
  "module_id env x =
     (if prefix ''./'' (posix_relative env (cwd env) x)
      then drop 2 (posix_relative env (cwd env) x) else posix_relative env (cwd env) x)"
  by (simp add: module_id_def replace_start_simp numeral_2_eq_2)

lemma response_writes_emit [simp]:
  "response_writes (emit e s) = response_writes s @ (if is_response_write e then [e] else [])"
  by (simp add: response_writes_def)

lemma writeCacheFile_cache [simp]:
  "WRITE_CACHE (snd (writeCacheFile env r f d s)) = (WRITE_CACHE s)(f \<mapsto> d)"
  by (simp add: writeCacheFile_def Let_def split: option.splits)

lemma response_writes_cache_set [simp]:
  "response_writes (cache_set k v s) = response_writes s"
  by (simp add: cache_set_def response_writes_def emit_def)

lemma writeCacheFile_response [simp]:
  "response_writes (snd (writeCacheFile env r f d s)) = response_writes s"
  by (simp add: writeCacheFile_def Let_def split: option.splits)

lemma write_emitted_response [simp]:
  "response_writes (write_emitted env fs s) = response_writes s"
  by (induction fs arbitrary: s) auto

lemma TRANSFORMS_js_response:
  "response_writes (snd (TRANSFORMS_js env c s)) = response_writes s"
  by (simp add: TRANSFORMS_js_def Let_def split: option.splits sum.splits)

lemma TRANSFORMS_cssModule_response:
  "response_writes (snd (TRANSFORMS_cssModule env c s)) = response_writes s"
  by (simp add: TRANSFORMS_cssModule_def Let_def split: option.splits sum.splits)

lemma TRANSFORMS_css_response:
  "response_writes (snd (TRANSFORMS_css env c s)) = response_writes s"
  by (simp add: TRANSFORMS_css_def Let_def split: option.splits sum.splits)

lemma run_transform_response:
  "response_writes (snd (run_transform env t c s)) = response_writes s"
  by (cases t)
    (simp_all add: TRANSFORMS_js_response TRANSFORMS_cssModule_response TRANSFORMS_css_response
      TRANSFORMS_generic_def)

lemma resolve_file_response:
  "response_writes (snd (resolve_file env r p f s)) = response_writes s"
  by (simp add: resolve_file_def Let_def)

lemma prepare_response:
  "response_writes (snd (snd (prepare env req s))) = response_writes s"
  by (simp add: prepare_def Let_def resolve_file_response split: option.splits)

lemma middleware_throw:
  assumes "\<not> prefix ''/@npm/'' (posix_normalize env (req_path req))"
    and "prepare env req s = (t, c, s2)"
    and "run_transform env t c s2 = (Throw e, s3)"
  shows "wmrMiddleware env req s =
           (if is_nullish e then emit (Next None) s3 else emit (Next (Some e)) (emit (OnError e) s3))"
  using assms by (simp add: wmrMiddleware_def)

lemma example_env_fields:
  "cwd example_env = ''/app''" "out example_env = ''.dist''"
  "posix_normalize example_env p = p"
  "posix_join example_env a b = a @ b"
  "posix_relative example_env a b = drop (length a + 1) b"
  "path_resolve example_env a b = (if prefix ''/'' b then b else a @ ''/'' @ b)"
  "mime_getType example_env f = None"
  "fs_readFile example_env p =
     (if p \<in> set [''/app/util.js'', ''/app/a.module.css'', ''/app/a.module.scss'']
      then Inr ''.a{}'' else Inl (ThrownError ''ENOENT''))"
  by (simp_all add: example_env_def)

lemma module_id_example: "module_id example_env (''/app/'' @ f) = replace_start ''./'' f"
  by (simp add: module_id_def example_env_fields)

lemma writeCacheFile_trace:
  "\<exists>es. trace (snd (writeCacheFile env r f d s)) = trace s @ CacheSet f d # es
        \<and> list_all is_disk_io es"
  by (simp add: writeCacheFile_def Let_def split: option.splits)

lemma writeCacheFile_pending [simp]:
  "pendingChanges (snd (writeCacheFile env r f d s)) = pendingChanges s"
  "timers (snd (writeCacheFile env r f d s)) = timers s"
  by (simp_all add: writeCacheFile_def Let_def split: option.splits)

lemma emit_neq [simp]: "emit e s \<noteq> s"
proof
  assume "emit e s = s"
  then have "trace (emit e s) = trace s" by simp
  then show False by simp
qed

lemma TRANSFORMS_css_skip:
  "\<not> suffix ''.module.css'' (ctx_path c) \<Longrightarrow> TRANSFORMS_css env c s = (Throw ThrownNull, s)"
  by (simp add: TRANSFORMS_css_def test_re_module_css)

lemma TRANSFORMS_css_hit:
  "suffix ''.module.css'' (ctx_path c) \<Longrightarrow> WRITE_CACHE s (ctx_id c) = Some v \<Longrightarrow>
     TRANSFORMS_css env c s = (Return (RetContent v), s)"
  by (simp add: TRANSFORMS_css_def test_re_module_css)

lemma TRANSFORMS_css_miss:
  "suffix ''.module.css'' (ctx_path c) \<Longrightarrow> WRITE_CACHE s (ctx_id c) = None \<Longrightarrow>
     \<exists>es. trace (snd (TRANSFORMS_css env c s))
             = trace s @ FsReadFile (path_resolve env (cwd env) (ctx_file c)) # es"
  using writeCacheFile_trace
    [of env "out env" "ctx_id c" _
      "emit (ModularizeCss x (ctx_id c)) (emit (FsReadFile (path_resolve env (cwd env) (ctx_file c))) s)" for x]
  by (auto simp: TRANSFORMS_css_def test_re_module_css Let_def split: sum.splits)

lemma TRANSFORMS_css_accepts:
  assumes "suffix ''.module.css'' (ctx_path c)"
  shows "TRANSFORMS_css env c s \<noteq> (Throw ThrownNull, s)"
proof (cases "WRITE_CACHE s (ctx_id c)")
  case None
  from TRANSFORMS_css_miss [OF assms None, of env]
  have "trace (snd (TRANSFORMS_css env c s)) \<noteq> trace s" by auto
  then show ?thesis by auto
next
  case (Some v)
  then show ?thesis by (simp add: TRANSFORMS_css_hit [OF assms])
qed

lemma middleware_css_skip:
  assumes "\<not> prefix ''/@npm/'' (posix_normalize env (req_path req))"
    and "prepare env req s = (Css, c, s2)"
    and "\<not> suffix ''.module.css'' (ctx_path c)"
  shows "wmrMiddleware env req s = emit (Next None) s2"
  using assms by (simp add: wmrMiddleware_def TRANSFORMS_css_skip)

lemma example_select:
  "select_transform ''/a.module.scss'' ''/app/a.module.scss'' = Css"
  "select_transform ''/site.css'' ''/app/site.css'' = Css"
  "select_transform ''/missing.js'' ''/app/missing.js'' = Js"
  by (simp_all add: select_transform_def test_re_css_js test_re_module_ext test_re_style_ext
      suffix_to_prefix)

lemma example_prepare:
  "prepare example_env sass_request init_state = (Css, sass_ctx, init_state)"
  "prepare example_env plain_css_request init_state = (Css, plain_css_ctx, init_state)"
  "prepare example_env missing_request init_state = (Js, missing_ctx, init_state)"
  using example_select module_id_example [of "''a.module.scss''"]
    module_id_example [of "''site.css''"] module_id_example [of "''missing.js''"]
  by (simp_all add: prepare_def sass_request_def sass_ctx_def plain_css_request_def
      plain_css_ctx_def missing_request_def missing_ctx_def example_env_fields
      resolve_file_def test_re_referer replace_start_simp Let_def)

lemma TRANSFORMS_js_hit:
  "WRITE_CACHE s (ctx_id c) = Some u \<Longrightarrow>
     TRANSFORMS_js env c s = (Return (RetContent u), emit js_header s)"
  by (simp add: TRANSFORMS_js_def js_header_def)

lemma TRANSFORMS_cssModule_hit:
  "WRITE_CACHE s (ctx_id c) = Some u \<Longrightarrow>
     TRANSFORMS_cssModule env c s = (Return (RetContent u), emit js_header s)"
  by (simp add: TRANSFORMS_cssModule_def js_header_def)

lemma TRANSFORMS_js_stores:
  "TRANSFORMS_js env c s = (Return (RetContent v), s1) \<Longrightarrow> WRITE_CACHE s1 (ctx_id c) = Some v"
  by (auto simp: TRANSFORMS_js_def Let_def split: option.splits sum.splits)

lemma TRANSFORMS_cssModule_stores:
  "TRANSFORMS_cssModule env c s = (Return (RetContent v), s1) \<Longrightarrow>
     WRITE_CACHE s1 (ctx_id c) = Some v"
  by (auto simp: TRANSFORMS_cssModule_def Let_def split: option.splits sum.splits)

lemma TRANSFORMS_css_stores:
  "TRANSFORMS_css env c s = (Return (RetContent v), s1) \<Longrightarrow>
     WRITE_CACHE s1 (ctx_id c) = Some v \<and> suffix ''.module.css'' (ctx_path c)"
  by (auto simp: TRANSFORMS_css_def Let_def test_re_module_css
      split: option.splits sum.splits if_splits)

lemma run_transform_stores:
  assumes "cached_transform t" and "run_transform env t c s = (Return (RetContent v), s1)"
  shows "WRITE_CACHE s1 (ctx_id c) = Some v \<and> (t = Css \<longrightarrow> suffix ''.module.css'' (ctx_path c))"
  using assms
  by (cases t)
    (auto simp: cached_transform_def dest: TRANSFORMS_js_stores TRANSFORMS_cssModule_stores
      TRANSFORMS_css_stores)

lemma run_transform_hit:
  assumes "cached_transform t" and "WRITE_CACHE s (ctx_id c) = Some u"
    and "t = Css \<longrightarrow> suffix ''.module.css'' (ctx_path c)"
  shows "run_transform env t c s = (Return (RetContent u), if t = Css then s else emit js_header s)"
  using assms
  by (cases t)
    (simp_all add: cached_transform_def TRANSFORMS_js_hit TRANSFORMS_cssModule_hit
      TRANSFORMS_css_hit)

lemma example_js_run:
  "run_transform example_env Js util_ctx init_state
     = (Return (RetContent ''.a{}''),
        snd (writeCacheFile example_env ''.dist'' ''util.js'' ''.a{}''
          (emit (TransformImports ''.a{}'' ''util.js'')
            (emit (NonRollupTransform ''.a{}'' ''util.js'')
              (emit (FsReadFile ''/app/util.js'') (emit js_header init_state))))))"
  by (simp add: TRANSFORMS_js_def util_ctx_def example_env_fields init_state_def Let_def
      js_header_def example_env_def)

lemma write_emitted_cache:
  "WRITE_CACHE (write_emitted env fs s) = fold (\<lambda>(f, d) m. m(f \<mapsto> d)) fs (WRITE_CACHE s)"
  by (induction fs arbitrary: s) auto

lemma TRANSFORMS_js_mirror:
  "fst (TRANSFORMS_js (env\<lparr>fs_mkdir := mkd, fs_writeFile := wrf\<rparr>) c s) = fst (TRANSFORMS_js env c s)
   \<and> WRITE_CACHE (snd (TRANSFORMS_js (env\<lparr>fs_mkdir := mkd, fs_writeFile := wrf\<rparr>) c s))
     = WRITE_CACHE (snd (TRANSFORMS_js env c s))"
  by (simp add: TRANSFORMS_js_def Let_def split: option.splits sum.splits)

lemma TRANSFORMS_css_mirror:
  "fst (TRANSFORMS_css (env\<lparr>fs_mkdir := mkd, fs_writeFile := wrf\<rparr>) c s) = fst (TRANSFORMS_css env c s)
   \<and> WRITE_CACHE (snd (TRANSFORMS_css (env\<lparr>fs_mkdir := mkd, fs_writeFile := wrf\<rparr>) c s))
     = WRITE_CACHE (snd (TRANSFORMS_css env c s))"
  by (simp add: TRANSFORMS_css_def Let_def split: option.splits sum.splits)

lemma TRANSFORMS_cssModule_mirror:
  "fst (TRANSFORMS_cssModule (env\<lparr>fs_mkdir := mkd, fs_writeFile := wrf\<rparr>) c s)
     = fst (TRANSFORMS_cssModule env c s)
   \<and> WRITE_CACHE (snd (TRANSFORMS_cssModule (env\<lparr>fs_mkdir := mkd, fs_writeFile := wrf\<rparr>) c s))
     = WRITE_CACHE (snd (TRANSFORMS_cssModule env c s))"
proof (cases "WRITE_CACHE s (ctx_id c)")
  case (Some v)
  then show ?thesis
    by (simp add: TRANSFORMS_cssModule_def)
next
  case None
  show ?thesis
  proof (cases "snd (container_load env (replace_end ''.js'' (ctx_file c)))")
    case (Inl e)
    with None show ?thesis
      by (simp add: TRANSFORMS_cssModule_def Let_def write_emitted_cache)
  next
    case (Inr result)
    define code1 where "code1 = (case result of
        LoadString str \<Rightarrow> Some str | LoadObject str \<Rightarrow> Some str | LoadUndefined \<Rightarrow> None)"
    show ?thesis
    proof (cases "snd (container_transform env code1 (ctx_id c))")
      case (Inl e)
      with None Inr show ?thesis
        by (simp add: TRANSFORMS_cssModule_def Let_def write_emitted_cache code1_def)
    next
      case r2: (Inr code2)
      show ?thesis
      proof (cases "transformImports env code2 (ctx_id c) resolveId_cssModule")
        case (Inl e)
        with None Inr r2 show ?thesis
          by (simp add: TRANSFORMS_cssModule_def Let_def write_emitted_cache code1_def)
      next
        case r3: (Inr code3)
        with None Inr r2 show ?thesis
          by (simp add: TRANSFORMS_cssModule_def Let_def write_emitted_cache code1_def)
      qed
    qed
  qed
qed

lemma run_transform_mirror:
  "fst (run_transform (env\<lparr>fs_mkdir := mkd, fs_writeFile := wrf\<rparr>) t c s) = fst (run_transform env t c s)
   \<and> WRITE_CACHE (snd (run_transform (env\<lparr>fs_mkdir := mkd, fs_writeFile := wrf\<rparr>) t c s))
     = WRITE_CACHE (snd (run_transform env t c s))"
  by (cases t)
    (simp_all add: TRANSFORMS_js_mirror TRANSFORMS_css_mirror TRANSFORMS_cssModule_mirror)

lemma TRANSFORMS_js_computes:
  assumes "WRITE_CACHE s (ctx_id c) = None"
    and "fs_readFile env (path_resolve env (cwd env) (ctx_file c)) = Inr code1"
    and "NonRollup_transform env code1 (ctx_id c) = Inr code2"
    and "transformImports env code2 (ctx_id c) (\<lambda>spec. Some (resolveId spec)) = Inr code3"
  shows "fst (TRANSFORMS_js env c s) = Return (RetContent code3)
     \<and> WRITE_CACHE (snd (TRANSFORMS_js env c s)) = (WRITE_CACHE s)(ctx_id c \<mapsto> code3)"
  using assms by (simp add: TRANSFORMS_js_def Let_def)

lemma set_add_nonempty [simp]: "set_add x xs \<noteq> []"
  by (auto simp: set_add_def)

lemma set_add_set [simp]: "set (set_add x xs) = insert x (set xs)"
  by (auto simp: set_add_def)

lemma set_add_distinct [simp]: "distinct (set_add x xs) = distinct xs"
  by (simp add: set_add_def)

lemma fold_set_add_set: "set (fold set_add ys xs) = set ys \<union> set xs"
  by (induction ys arbitrary: xs) auto

lemma fold_set_add_distinct: "distinct (fold set_add ys xs) = distinct xs"
  by (induction ys arbitrary: xs) auto

lemma fold_set_add_nonempty: "ys \<noteq> [] \<Longrightarrow> fold set_add ys xs \<noteq> []"
  using fold_set_add_set [of ys xs] by (cases ys) auto

lemma on_change_watcher:
  "pendingChanges (watcher_on_change env f s) = set_add (web_path env f) (pendingChanges s)"
  "timers (watcher_on_change env f s) = (if pendingChanges s = [] then timers s @ [60] else timers s)"
  "notifications (watcher_on_change env f s) = notifications s"
  "schedules (watcher_on_change env f s)
     = schedules s @ (if pendingChanges s = [] then [SetTimeout 60] else [])"
  by (simp_all add: watcher_on_change_def Let_def web_path_def notifications_def schedules_def)

lemma flush_watcher:
  "pendingChanges (flushChanges s) = []"
  "timers (flushChanges s) = timers s"
  "notifications (flushChanges s) = notifications s @ [OnChange (pendingChanges s) 0]"
  "schedules (flushChanges s) = schedules s"
  "WRITE_CACHE (flushChanges s) = WRITE_CACHE s"
  by (simp_all add: flushChanges_def notifications_def schedules_def)

lemma timers_update_watcher [simp]:
  "notifications (s\<lparr>timers := ds\<rparr>) = notifications s"
  "schedules (s\<lparr>timers := ds\<rparr>) = schedules s"
  by (simp_all add: notifications_def schedules_def)

lemma watcher_step_inv:
  assumes "watcher_inv s" and "watcher_step env ev s = Some s'"
  shows "watcher_inv s'"
proof (cases ev)
  case (FileChange f)
  with assms show ?thesis
    by (auto simp: watcher_inv_def on_change_watcher split: if_splits)
next
  case TimerFires
  with assms show ?thesis
    by (auto simp: watcher_inv_def flush_watcher notifications_def split: list.splits if_splits)
qed

lemma watcher_run_inv:
  "watcher_inv s \<Longrightarrow> watcher_run env evs s = Some s' \<Longrightarrow> watcher_inv s'"
proof (induction evs arbitrary: s)
  case Nil
  then show ?case by simp
next
  case (Cons ev evs)
  then show ?case
    by (auto split: option.splits dest: watcher_step_inv)
qed

lemma watcher_run_append:
  "watcher_run env (xs @ ys) s =
     (case watcher_run env xs s of None \<Rightarrow> None | Some s' \<Rightarrow> watcher_run env ys s')"
  by (induction xs arbitrary: s) (auto split: option.splits)

lemma changes_run:
  "watcher_run env (map FileChange fs) s = Some (fold (watcher_on_change env) fs s)"
  by (induction fs arbitrary: s) auto

lemma changes_fold:
  "pendingChanges (fold (watcher_on_change env) fs s)
     = fold set_add (map (web_path env) fs) (pendingChanges s)"
  "notifications (fold (watcher_on_change env) fs s) = notifications s"
  by (induction fs arbitrary: s) (simp_all add: on_change_watcher)

lemma changes_fold_busy:
  "pendingChanges s \<noteq> [] \<Longrightarrow>
     timers (fold (watcher_on_change env) fs s) = timers s
     \<and> schedules (fold (watcher_on_change env) fs s) = schedules s"
  by (induction fs arbitrary: s) (simp_all add: on_change_watcher)

lemma changes_fold_idle:
  assumes "pendingChanges s = []" and "fs \<noteq> []"
  shows "timers (fold (watcher_on_change env) fs s) = timers s @ [60]
     \<and> schedules (fold (watcher_on_change env) fs s) = schedules s @ [SetTimeout 60]"
proof -
  from assms(2) obtain f fs' where fs: "fs = f # fs'"
    by (cases fs) auto
  have "pendingChanges (watcher_on_change env f s) \<noteq> []"
    by (simp add: on_change_watcher)
  from changes_fold_busy [OF this, of env fs'] show ?thesis
    by (simp add: fs on_change_watcher assms(1))
qed

lemma resolve_file_cache:
  "WRITE_CACHE (snd (resolve_file env r p f s)) = WRITE_CACHE s"
  by (simp add: resolve_file_def Let_def)

lemma prepare_cache:
  "WRITE_CACHE (snd (snd (prepare env req s))) = WRITE_CACHE s"
  by (simp add: prepare_def Let_def resolve_file_cache split: option.splits)

lemma middleware_content:
  assumes "\<not> prefix ''/@npm/'' (posix_normalize env (req_path req))"
    and "prepare env req s = (t, c, s2)"
    and "run_transform env t c s2 = (Return (RetContent v), s3)"
  shows "wmrMiddleware env req s =
           emit (End v) (emit (WriteHead 200 (length v) (transform_name t)
             (now_end env - now_start env)) s3)"
  using assms by (simp add: wmrMiddleware_def)

lemma middleware_hit:
  assumes "cached_transform t"
    and "\<not> prefix ''/@npm/'' (posix_normalize env (req_path req))"
    and "prepare env req s = (t, c, s2)"
    and "WRITE_CACHE s (ctx_id c) = Some v"
    and "t = Css \<longrightarrow> suffix ''.module.css'' (ctx_path c)"
  shows "response_writes (wmrMiddleware env req s)
           = response_writes s @ [WriteHead 200 (length v) (transform_name t)
               (now_end env - now_start env), End v]"
proof -
  from assms(3) have c2: "WRITE_CACHE s2 = WRITE_CACHE s" and r2: "response_writes s2 = response_writes s"
    using prepare_cache [of env req s] prepare_response [of env req s] by simp_all
  from assms(4) c2 have "WRITE_CACHE s2 (ctx_id c) = Some v" by simp
  from run_transform_hit [OF assms(1) this assms(5), of env]
  have run: "run_transform env t c s2 = (Return (RetContent v), if t = Css then s2 else emit js_header s2)" .
  show ?thesis
    unfolding middleware_content [OF assms(2,3) run]
    by (simp add: r2 js_header_def)
qed

section \<open>Invalidation by the watcher\<close>

text \<open>
  Claim C1. After the watcher's callback has run for a changed file, the cache has no entry
  under the file's id (the file name with forward slashes), so the next lookup of that id by
  the request handler misses; and when the file name ends in \<^verbatim>\<open>.module.css\<close>, the cache has
  no entry under the id of the proxy module either (the id followed by \<^verbatim>\<open>.js\<close>).
\<close>

theorem change_invalidates_cache:
  "WRITE_CACHE (watcher_on_change env filename s) (to_posix env filename) = None
   \<and> (suffix ''.module.css'' filename \<longrightarrow>
        WRITE_CACHE (watcher_on_change env filename s) (to_posix env filename @ ''.js'') = None)
   \<and> (\<forall>file. module_id env file = to_posix env filename \<longrightarrow>
        \<not> isCached env (watcher_on_change env filename s) file)"
  by (simp add: cache_after_change isCached_def)

theorem change_invalidates_cache_witness:
  "suffix ''.module.css'' ''src/a.module.css''
   \<and> WRITE_CACHE example_cached ''src/a.module.css'' = Some ''.a_x1{}''
   \<and> WRITE_CACHE example_cached ''src/a.module.css.js'' = Some ''export default {}''
   \<and> WRITE_CACHE (watcher_on_change example_env ''src/a.module.css'' example_cached)
        ''src/a.module.css'' = None
   \<and> WRITE_CACHE (watcher_on_change example_env ''src/a.module.css'' example_cached)
        ''src/a.module.css.js'' = None"
proof -
  have sfx: "suffix ''.module.css'' ''src/a.module.css''"
    by (simp add: suffix_def)
  show ?thesis
    using change_invalidates_cache [of example_env "''src/a.module.css''" example_cached] sfx
    by (simp add: example_env_posix example_cached_def init_state_def)
qed

text \<open>
  Claim C10. A change of a file whose name does not end in \<^verbatim>\<open>.module.css\<close> removes at most
  the cache entry under the file's own id: the cache afterwards is the cache before with that
  one key deleted, so every other key keeps its content.
\<close>

theorem change_frame:
  "\<not> suffix ''.module.css'' filename \<Longrightarrow>
     WRITE_CACHE (watcher_on_change env filename s) = (WRITE_CACHE s)(to_posix env filename := None)
     \<and> (\<forall>k. k \<noteq> to_posix env filename \<longrightarrow>
           WRITE_CACHE (watcher_on_change env filename s) k = WRITE_CACHE s k)"
  by (simp add: cache_after_change)

theorem change_frame_witness:
  "\<not> suffix ''.module.css'' ''src/b.js''
   \<and> WRITE_CACHE (watcher_on_change example_env ''src/b.js'' example_cached) ''src/b.js'' = None
   \<and> WRITE_CACHE (watcher_on_change example_env ''src/b.js'' example_cached) ''src/a.module.css''
       = Some ''.a_x1{}''
   \<and> WRITE_CACHE (watcher_on_change example_env ''src/b.js'' example_cached) ''src/b.js.js''
       = WRITE_CACHE example_cached ''src/b.js.js''"
proof -
  have sfx: "\<not> suffix ''.module.css'' ''src/b.js''"
    by (auto simp: suffix_def)
  show ?thesis
    using change_frame [OF sfx, of example_env example_cached] sfx
    by (simp add: example_env_posix example_cached_def init_state_def)
qed

section \<open>Rewriting of specifiers\<close>

text \<open>
  Claim C3. \<^verbatim>\<open>resolveId\<close> of the module transform sends \<^verbatim>\<open>left-pad\<close> to
  \<^verbatim>\<open>/@npm/left-pad\<close>, leaves \<^verbatim>\<open>./util.js\<close> as it is, sends \<^verbatim>\<open>./style.css\<close> to
  \<^verbatim>\<open>./style.css.js\<close> and \<^verbatim>\<open>wmr\<close> to \<^verbatim>\<open>/_wmr.js\<close>. For any other specifier: a bare one
  gets the prefix \<^verbatim>\<open>/@npm/\<close>, one that ends in \<^verbatim>\<open>.css\<close> gets the suffix \<^verbatim>\<open>.js\<close> (a bare
  one that ends in \<^verbatim>\<open>.css\<close> gets both), and a relative or absolute one that does not end
  in \<^verbatim>\<open>.css\<close> is unchanged.
\<close>

theorem resolveId_rewrites:
  "resolveId ''left-pad'' = ''/@npm/left-pad''
   \<and> resolveId ''./util.js'' = ''./util.js''
   \<and> resolveId ''./style.css'' = ''./style.css.js''
   \<and> resolveId ''wmr'' = ''/_wmr.js''
   \<and> (spec \<noteq> ''wmr'' \<and> bare spec \<and> \<not> suffix ''.css'' spec \<longrightarrow> resolveId spec = ''/@npm/'' @ spec)
   \<and> (\<not> bare spec \<and> \<not> suffix ''.css'' spec \<longrightarrow> resolveId spec = spec)
   \<and> (\<not> bare spec \<and> suffix ''.css'' spec \<longrightarrow> resolveId spec = spec @ ''.js'')
   \<and> (bare spec \<and> suffix ''.css'' spec \<longrightarrow> resolveId spec = ''/@npm/'' @ spec @ ''.js'')"
proof -
  have wmr: "bare ''wmr''" "\<not> suffix ''.css'' ''wmr''"
    by (auto simp: bare_def suffix_def)
  have e1: "resolveId ''left-pad'' = ''/@npm/left-pad''"
    by (auto simp: resolveId_cases bare_def suffix_def)
  have e2: "resolveId ''./util.js'' = ''./util.js''"
    by (auto simp: resolveId_cases bare_def suffix_def)
  have e3: "resolveId ''./style.css'' = ''./style.css.js''"
    by (auto simp: resolveId_cases bare_def suffix_def)
  have e4: "resolveId ''wmr'' = ''/_wmr.js''"
    by (simp add: resolveId_def)
  have g: "(spec \<noteq> ''wmr'' \<and> bare spec \<and> \<not> suffix ''.css'' spec \<longrightarrow> resolveId spec = ''/@npm/'' @ spec)
   \<and> (\<not> bare spec \<and> \<not> suffix ''.css'' spec \<longrightarrow> resolveId spec = spec)
   \<and> (\<not> bare spec \<and> suffix ''.css'' spec \<longrightarrow> resolveId spec = spec @ ''.js'')
   \<and> (bare spec \<and> suffix ''.css'' spec \<longrightarrow> resolveId spec = ''/@npm/'' @ spec @ ''.js'')"
    using wmr by (auto simp: resolveId_cases)
  from e1 e2 e3 e4 g show ?thesis by blast
qed

theorem resolveId_rewrites_witness:
  "bare ''lodash/fp'' \<and> resolveId ''lodash/fp'' = ''/@npm/lodash/fp''
   \<and> \<not> bare ''../lib/a.mjs'' \<and> resolveId ''../lib/a.mjs'' = ''../lib/a.mjs''
   \<and> \<not> bare ''/x.module.css'' \<and> resolveId ''/x.module.css'' = ''/x.module.css.js''
   \<and> bare ''pkg/theme.css'' \<and> resolveId ''pkg/theme.css'' = ''/@npm/pkg/theme.css.js''"
proof -
  have h: "bare ''lodash/fp''" "\<not> suffix ''.css'' ''lodash/fp''" "''lodash/fp'' \<noteq> ''wmr''"
    "\<not> bare ''../lib/a.mjs''" "\<not> suffix ''.css'' ''../lib/a.mjs''"
    "\<not> bare ''/x.module.css''" "suffix ''.css'' ''/x.module.css''"
    "bare ''pkg/theme.css''" "suffix ''.css'' ''pkg/theme.css''"
    by (auto simp: bare_def suffix_def)
  show ?thesis
    using resolveId_rewrites [of "''lodash/fp''"] resolveId_rewrites [of "''../lib/a.mjs''"]
      resolveId_rewrites [of "''/x.module.css''"] resolveId_rewrites [of "''pkg/theme.css''"] h
    by simp
qed

section \<open>Selection of the transform\<close>

text \<open>
  Claim C7. The transform is chosen in this order: the path \<^verbatim>\<open>/_wmr.js\<close> selects the runtime
  client; otherwise a file ending in \<^verbatim>\<open>.css.js\<close> selects the proxy of a CSS module;
  otherwise a file ending in a module extension selects the module transform; otherwise a file
  ending in a stylesheet extension selects the stylesheet transform; otherwise the generic
  transform. A file ending in \<^verbatim>\<open>.css.js\<close> also ends in the module extension \<^verbatim>\<open>.js\<close> and
  is matched by the module pattern, yet it selects the proxy and not the module transform.
\<close>

theorem select_priority:
  "select_transform path file =
     (if path = ''/_wmr.js'' then RuntimeClient
      else if suffix ''.css.js'' file then CssModule
      else if list_ex (\<lambda>e. suffix e file) [''.mjs'', ''.cjs'', ''.ts'', ''.tsx'', ''.js'', ''.jsx''] then Js
      else if list_ex (\<lambda>e. suffix e file) [''.css'', ''.sass'', ''.scss''] then Css
      else Generic)
   \<and> (path \<noteq> ''/_wmr.js'' \<and> suffix ''.css.js'' file \<longrightarrow>
        suffix ''.js'' file \<and> test_end re_module_ext file
        \<and> select_transform path file = CssModule \<and> select_transform path file \<noteq> Js)"
proof -
  have a: "suffix ''.css.js'' file \<Longrightarrow> suffix ''.js'' file"
    by (auto simp: suffix_def)
  show ?thesis
    using a css_js_is_module
    by (auto simp: select_transform_def test_re_css_js test_re_module_ext test_re_style_ext)
qed

theorem select_priority_witness:
  "select_transform ''/_wmr.js'' ''/app/_wmr.js'' = RuntimeClient
   \<and> ''/a.module.css.js'' \<noteq> ''/_wmr.js'' \<and> suffix ''.css.js'' ''/app/a.module.css.js''
   \<and> test_end re_module_ext ''/app/a.module.css.js''
   \<and> select_transform ''/a.module.css.js'' ''/app/a.module.css.js'' = CssModule
   \<and> select_transform ''/main.tsx'' ''/app/main.tsx'' = Js
   \<and> select_transform ''/a.scss'' ''/app/a.scss'' = Css
   \<and> select_transform ''/logo.png'' ''/app/logo.png'' = Generic"
proof -
  have h: "suffix ''.css.js'' ''/app/a.module.css.js''" "''/a.module.css.js'' \<noteq> ''/_wmr.js''"
    by (auto simp: suffix_def)
  have s: "\<And>w. suffix w ''/app/main.tsx'' \<longleftrightarrow> prefix (rev w) (rev ''/app/main.tsx'')"
    "\<And>w. suffix w ''/app/a.scss'' \<longleftrightarrow> prefix (rev w) (rev ''/app/a.scss'')"
    "\<And>w. suffix w ''/app/logo.png'' \<longleftrightarrow> prefix (rev w) (rev ''/app/logo.png'')"
    "\<And>w. suffix w ''/app/_wmr.js'' \<longleftrightarrow> prefix (rev w) (rev ''/app/_wmr.js'')"
    by (simp_all add: suffix_to_prefix)
  show ?thesis
    using select_priority [of "''/_wmr.js''" "''/app/_wmr.js''"]
      select_priority [of "''/a.module.css.js''" "''/app/a.module.css.js''"]
      select_priority [of "''/main.tsx''" "''/app/main.tsx''"]
      select_priority [of "''/a.scss''" "''/app/a.scss''"]
      select_priority [of "''/logo.png''" "''/app/logo.png''"] h
    by (simp add: s)
qed

section \<open>The file of a request\<close>

text \<open>
  Claim C4. When the referer of a request ends in \<^verbatim>\<open>.ts\<close>, \<^verbatim>\<open>.tsx\<close>, \<^verbatim>\<open>.js\<close> or
  \<^verbatim>\<open>.jsx\<close> and the request path has no extension of two or more word characters, the file
  of the request is the first match among: an entry of \<^verbatim>\<open>WRITE_CACHE\<close> under the id of the
  path with \<^verbatim>\<open>.tsx\<close>, an entry of \<^verbatim>\<open>WRITE_CACHE\<close> under the id of the path with
  \<^verbatim>\<open>.ts\<close>, a file on disk at the path with \<^verbatim>\<open>.tsx\<close>, a file on disk at the path with
  \<^verbatim>\<open>.ts\<close>; and the path itself when none matches. So a cached \<^verbatim>\<open>.tsx\<close> wins over
  everything, a cached \<^verbatim>\<open>.ts\<close> wins over both files on disk, and when both files are on
  disk and neither is cached, the file with \<^verbatim>\<open>.tsx\<close> is chosen. The id of a file is its path
  relative to the working directory, without a leading \<^verbatim>\<open>./\<close>, and it is the id under which
  the transform of the request looks the cache up.
\<close>

theorem typed_referer_resolution:
  assumes "req_referer req = Some ref"
    and "suffix ''.ts'' ref \<or> suffix ''.tsx'' ref \<or> suffix ''.js'' ref \<or> suffix ''.jsx'' ref"
    and "\<not> test_end re_multi_ext (posix_normalize env (req_path req))"
    and "f = posix_join env (cwd env) (posix_normalize env (req_path req))"
  shows "ctx_file (fst (snd (prepare env req s))) =
           (if WRITE_CACHE s (module_id env (f @ ''.tsx'')) \<noteq> None then f @ ''.tsx''
            else if WRITE_CACHE s (module_id env (f @ ''.ts'')) \<noteq> None then f @ ''.ts''
            else if fs_isFile env (f @ ''.tsx'') then f @ ''.tsx''
            else if fs_isFile env (f @ ''.ts'') then f @ ''.ts''
            else f)
     \<and> ctx_file (fst (snd (prepare env req s))) = first_match env s f
     \<and> (\<forall>v. WRITE_CACHE s (module_id env (f @ ''.tsx'')) = Some v \<longrightarrow>
            ctx_file (fst (snd (prepare env req s))) = f @ ''.tsx'')
     \<and> (\<forall>v. WRITE_CACHE s (module_id env (f @ ''.tsx'')) = None
            \<and> WRITE_CACHE s (module_id env (f @ ''.ts'')) = Some v \<longrightarrow>
            ctx_file (fst (snd (prepare env req s))) = f @ ''.ts'')
     \<and> (WRITE_CACHE s (module_id env (f @ ''.tsx'')) = None
          \<and> WRITE_CACHE s (module_id env (f @ ''.ts'')) = None
          \<and> fs_isFile env (f @ ''.tsx'') \<and> fs_isFile env (f @ ''.ts'') \<longrightarrow>
            ctx_file (fst (snd (prepare env req s))) = f @ ''.tsx'')
     \<and> (WRITE_CACHE s (module_id env (f @ ''.tsx'')) = None
          \<and> WRITE_CACHE s (module_id env (f @ ''.ts'')) = None
          \<and> \<not> fs_isFile env (f @ ''.tsx'') \<and> fs_isFile env (f @ ''.ts'') \<longrightarrow>
            ctx_file (fst (snd (prepare env req s))) = f @ ''.ts'')
     \<and> (WRITE_CACHE s (module_id env (f @ ''.tsx'')) = None
          \<and> WRITE_CACHE s (module_id env (f @ ''.ts'')) = None
          \<and> \<not> fs_isFile env (f @ ''.tsx'') \<and> \<not> fs_isFile env (f @ ''.ts'') \<longrightarrow>
            ctx_file (fst (snd (prepare env req s))) = f)
     \<and> ctx_id (fst (snd (prepare env req s)))
           = module_id env (ctx_file (fst (snd (prepare env req s))))
     \<and> (\<forall>x. module_id env x =
            (if prefix ''./'' (posix_relative env (cwd env) x)
             then drop 2 (posix_relative env (cwd env) x) else posix_relative env (cwd env) x))"
proof -
  from assms(2) have r: "test_end re_referer ref"
    by (simp add: test_re_referer)
  have "ctx_file (fst (snd (prepare env req s)))
      = fst (resolve_file env (Some ref) (posix_normalize env (req_path req)) f s)"
    by (simp add: prepare_def Let_def assms(1,4))
  also have "\<dots> = first_match env s f"
    using r assms(3) by (rule resolve_file_typed)
  finally have m: "ctx_file (fst (snd (prepare env req s))) = first_match env s f" .
  have i: "ctx_id (fst (snd (prepare env req s)))
      = module_id env (ctx_file (fst (snd (prepare env req s))))"
    by (simp add: prepare_def Let_def)
  have e: "\<forall>x. module_id env x =
            (if prefix ''./'' (posix_relative env (cwd env) x)
             then drop 2 (posix_relative env (cwd env) x) else posix_relative env (cwd env) x)"
    using module_id_explicit by blast
  have c: "first_match env s f =
           (if WRITE_CACHE s (module_id env (f @ ''.tsx'')) \<noteq> None then f @ ''.tsx''
            else if WRITE_CACHE s (module_id env (f @ ''.ts'')) \<noteq> None then f @ ''.ts''
            else if fs_isFile env (f @ ''.tsx'') then f @ ''.tsx''
            else if fs_isFile env (f @ ''.ts'') then f @ ''.ts''
            else f)"
    by (rule first_match_chain)
  have p1: "ctx_file (fst (snd (prepare env req s))) =
           (if WRITE_CACHE s (module_id env (f @ ''.tsx'')) \<noteq> None then f @ ''.tsx''
            else if WRITE_CACHE s (module_id env (f @ ''.ts'')) \<noteq> None then f @ ''.ts''
            else if fs_isFile env (f @ ''.tsx'') then f @ ''.tsx''
            else if fs_isFile env (f @ ''.ts'') then f @ ''.ts''
            else f)"
    using m c by (rule trans)
  have p3: "\<forall>v. WRITE_CACHE s (module_id env (f @ ''.tsx'')) = Some v \<longrightarrow>
            ctx_file (fst (snd (prepare env req s))) = f @ ''.tsx''"
    by (simp add: p1)
  have p4: "\<forall>v. WRITE_CACHE s (module_id env (f @ ''.tsx'')) = None
            \<and> WRITE_CACHE s (module_id env (f @ ''.ts'')) = Some v \<longrightarrow>
            ctx_file (fst (snd (prepare env req s))) = f @ ''.ts''"
    by (simp add: p1)
  have p5: "WRITE_CACHE s (module_id env (f @ ''.tsx'')) = None
          \<and> WRITE_CACHE s (module_id env (f @ ''.ts'')) = None
          \<and> fs_isFile env (f @ ''.tsx'') \<and> fs_isFile env (f @ ''.ts'') \<longrightarrow>
            ctx_file (fst (snd (prepare env req s))) = f @ ''.tsx''"
    by (simp add: p1)
  have p6: "WRITE_CACHE s (module_id env (f @ ''.tsx'')) = None
          \<and> WRITE_CACHE s (module_id env (f @ ''.ts'')) = None
          \<and> \<not> fs_isFile env (f @ ''.tsx'') \<and> fs_isFile env (f @ ''.ts'') \<longrightarrow>
            ctx_file (fst (snd (prepare env req s))) = f @ ''.ts''"
    by (simp add: p1)
  have p7: "WRITE_CACHE s (module_id env (f @ ''.tsx'')) = None
          \<and> WRITE_CACHE s (module_id env (f @ ''.ts'')) = None
          \<and> \<not> fs_isFile env (f @ ''.tsx'') \<and> \<not> fs_isFile env (f @ ''.ts'') \<longrightarrow>
            ctx_file (fst (snd (prepare env req s))) = f"
    by (simp add: p1)
  show ?thesis
    by (intro conjI p1 m p3 p4 p5 p6 p7 i e)
qed

theorem typed_referer_resolution_witness:
  "req_referer example_request = Some ''http://localhost:8080/index.tsx''
   \<and> suffix ''.tsx'' ''http://localhost:8080/index.tsx''
   \<and> \<not> test_end re_multi_ext (posix_normalize example_env (req_path example_request))
   \<and> ''/app/main'' = posix_join example_env (cwd example_env)
         (posix_normalize example_env (req_path example_request))
   \<and> fs_isFile example_env ''/app/main.tsx'' \<and> fs_isFile example_env ''/app/main.ts''
   \<and> module_id example_env ''/app/main.tsx'' = ''main.tsx''
   \<and> module_id example_env ''/app/main.ts'' = ''main.ts''
   \<and> WRITE_CACHE init_state ''main.tsx'' = None \<and> WRITE_CACHE init_state ''main.ts'' = None
   \<and> ctx_file (fst (snd (prepare example_env example_request init_state))) = ''/app/main.tsx''
   \<and> WRITE_CACHE typed_cached ''main.tsx'' = None
   \<and> WRITE_CACHE typed_cached ''main.ts'' = Some ''export {}''
   \<and> ctx_file (fst (snd (prepare example_env example_request typed_cached))) = ''/app/main.ts''
   \<and> ctx_id (fst (snd (prepare example_env example_request typed_cached))) = ''main.ts''
   \<and> WRITE_CACHE typed_cached_both ''main.tsx'' = Some ''export default 1''
   \<and> WRITE_CACHE typed_cached_both ''main.ts'' = Some ''export {}''
   \<and> ctx_file (fst (snd (prepare example_env example_request typed_cached_both)))
       = ''/app/main.tsx''"
proof -
  have a: "req_referer example_request = Some ''http://localhost:8080/index.tsx''"
    by (simp add: example_request_def)
  have b: "suffix ''.tsx'' ''http://localhost:8080/index.tsx''"
    by (simp add: suffix_to_prefix)
  have n: "posix_normalize example_env (req_path example_request) = ''/main''"
    by (simp add: example_request_def example_env_def)
  have c: "\<not> test_end re_multi_ext (posix_normalize example_env (req_path example_request))"
    unfolding n by code_simp
  have j: "''/app/main'' = posix_join example_env (cwd example_env)
         (posix_normalize example_env (req_path example_request))"
    unfolding n by (simp add: example_env_def)
  have d: "fs_isFile example_env ''/app/main.tsx''" "fs_isFile example_env ''/app/main.ts''"
    by (simp_all add: example_env_def)
  have k: "module_id example_env ''/app/main.tsx'' = ''main.tsx''"
    "module_id example_env ''/app/main.ts'' = ''main.ts''"
    using module_id_example [of "''main.tsx''"] module_id_example [of "''main.ts''"]
    by (simp_all add: replace_start_simp)
  have w0: "WRITE_CACHE init_state ''main.tsx'' = None" "WRITE_CACHE init_state ''main.ts'' = None"
    by (simp_all add: init_state_def)
  have w1: "WRITE_CACHE typed_cached ''main.tsx'' = None"
    "WRITE_CACHE typed_cached ''main.ts'' = Some ''export {}''"
    by (simp_all add: typed_cached_def)
  have w2: "WRITE_CACHE typed_cached_both ''main.tsx'' = Some ''export default 1''"
    "WRITE_CACHE typed_cached_both ''main.ts'' = Some ''export {}''"
    by (simp_all add: typed_cached_both_def)
  from b have b': "suffix ''.ts'' ''http://localhost:8080/index.tsx''
      \<or> suffix ''.tsx'' ''http://localhost:8080/index.tsx''
      \<or> suffix ''.js'' ''http://localhost:8080/index.tsx''
      \<or> suffix ''.jsx'' ''http://localhost:8080/index.tsx''"
    by blast
  have r0: "ctx_file (fst (snd (prepare example_env example_request init_state)))
      = ''/app/main.tsx''"
    using typed_referer_resolution [OF a b' c j, of init_state, THEN conjunct1] d k w0
    by simp
  have r1: "ctx_file (fst (snd (prepare example_env example_request typed_cached)))
      = ''/app/main.ts''"
    using typed_referer_resolution [OF a b' c j, of typed_cached, THEN conjunct1] d k w1
    by simp
  from typed_referer_resolution [OF a b' c j, of typed_cached]
  have "ctx_id (fst (snd (prepare example_env example_request typed_cached)))
      = module_id example_env (ctx_file (fst (snd (prepare example_env example_request typed_cached))))"
    by blast
  then have i1: "ctx_id (fst (snd (prepare example_env example_request typed_cached))) = ''main.ts''"
    by (simp add: r1 k)
  have r2: "ctx_file (fst (snd (prepare example_env example_request typed_cached_both)))
      = ''/app/main.tsx''"
    using typed_referer_resolution [OF a b' c j, of typed_cached_both, THEN conjunct1] d k w2
    by simp
  from a b c j d k w0 w1 w2 r0 r1 i1 r2 show ?thesis
    by blast
qed

section \<open>Errors of a transform\<close>

text \<open>
  Claim C6. When the transform of a request throws: if the thrown value is \<^verbatim>\<open>null\<close> or
  \<^verbatim>\<open>undefined\<close>, the handler only calls \<^verbatim>\<open>next()\<close>; for any other thrown value it calls
  \<^verbatim>\<open>onError\<close> with that value and then \<^verbatim>\<open>next\<close> with that value. In both cases the handler
  writes no response (no \<^verbatim>\<open>writeHead\<close>, no \<^verbatim>\<open>end\<close>), leaves the cache as the transform
  left it, and returns normally: the thrown value does not leave the handler.
\<close>

theorem thrown_values_are_routed:
  assumes "\<not> prefix ''/@npm/'' (posix_normalize env (req_path req))"
    and "prepare env req s = (t, c, s2)"
    and "run_transform env t c s2 = (Throw e, s3)"
  shows "(is_nullish e \<longrightarrow> trace (wmrMiddleware env req s) = trace s3 @ [Next None])
     \<and> (\<not> is_nullish e \<longrightarrow>
          trace (wmrMiddleware env req s) = trace s3 @ [OnError e, Next (Some e)])
     \<and> response_writes (wmrMiddleware env req s) = response_writes s
     \<and> WRITE_CACHE (wmrMiddleware env req s) = WRITE_CACHE s3"
proof -
  from assms(2) have "response_writes s2 = response_writes s"
    using prepare_response [of env req s] by simp
  moreover from assms(3) have "response_writes s3 = response_writes s2"
    using run_transform_response [of env t c s2] by simp
  ultimately show ?thesis
    by (simp add: middleware_throw [OF assms])
qed

theorem thrown_values_are_routed_witness:
  "\<not> prefix ''/@npm/'' (posix_normalize example_env (req_path missing_request))
   \<and> prepare example_env missing_request init_state = (Js, missing_ctx, init_state)
   \<and> fst (run_transform example_env Js missing_ctx init_state) = Throw (ThrownError ''ENOENT'')
   \<and> \<not> is_nullish (ThrownError ''ENOENT'')
   \<and> trace (wmrMiddleware example_env missing_request init_state)
       = [SetHeader ''content-type'' ''application/javascript'', FsReadFile ''/app/missing.js'',
          OnError (ThrownError ''ENOENT''), Next (Some (ThrownError ''ENOENT''))]
   \<and> \<not> prefix ''/@npm/'' (posix_normalize example_env (req_path plain_css_request))
   \<and> prepare example_env plain_css_request init_state = (Css, plain_css_ctx, init_state)
   \<and> run_transform example_env Css plain_css_ctx init_state = (Throw ThrownNull, init_state)
   \<and> is_nullish ThrownNull
   \<and> trace (wmrMiddleware example_env plain_css_request init_state) = [Next None]"
proof -
  have a: "\<not> prefix ''/@npm/'' (posix_normalize example_env (req_path missing_request))"
    "\<not> prefix ''/@npm/'' (posix_normalize example_env (req_path plain_css_request))"
    by (simp_all add: missing_request_def plain_css_request_def example_env_fields)
  have c: "run_transform example_env Js missing_ctx init_state
      = (Throw (ThrownError ''ENOENT''),
         emit (FsReadFile ''/app/missing.js'')
           (emit (SetHeader ''content-type'' ''application/javascript'') init_state))"
    by (simp add: TRANSFORMS_js_def missing_ctx_def example_env_fields init_state_def Let_def)
  have n: "\<not> suffix ''.module.css'' (ctx_path plain_css_ctx)"
    by (simp add: plain_css_ctx_def suffix_to_prefix)
  have d: "run_transform example_env Css plain_css_ctx init_state = (Throw ThrownNull, init_state)"
    using n by (simp add: TRANSFORMS_css_skip)
  show ?thesis
    using thrown_values_are_routed [OF a(1) example_prepare(3) c]
      thrown_values_are_routed [OF a(2) example_prepare(2) d] a c d example_prepare
    by (simp add: init_state_def)
qed

section \<open>The stylesheet transform\<close>

text \<open>
  Claim C5, as stated, fails. The path \<^verbatim>\<open>/a.module.scss\<close> has \<^verbatim>\<open>.module.\<close> before a
  stylesheet extension and selects the stylesheet transform, and its source can be read; yet
  the transform throws \<^verbatim>\<open>null\<close> and the handler only calls \<^verbatim>\<open>next()\<close>.
\<close>

theorem module_scss_counterexample:
  "scoped_by_convention (req_path sass_request)
   \<and> prepare example_env sass_request init_state = (Css, sass_ctx, init_state)
   \<and> fs_readFile example_env (path_resolve example_env (cwd example_env) (ctx_file sass_ctx))
       = Inr ''.a{}''
   \<and> run_transform example_env Css sass_ctx init_state = (Throw ThrownNull, init_state)
   \<and> trace (wmrMiddleware example_env sass_request init_state) = [Next None]"
proof -
  have a: "scoped_by_convention (req_path sass_request)"
    by (simp add: scoped_by_convention_def sass_request_def suffix_to_prefix)
  have b: "fs_readFile example_env (path_resolve example_env (cwd example_env) (ctx_file sass_ctx))
       = Inr ''.a{}''"
    by (simp add: example_env_fields sass_ctx_def)
  have n: "\<not> suffix ''.module.css'' (ctx_path sass_ctx)"
    by (simp add: sass_ctx_def suffix_to_prefix)
  have c: "run_transform example_env Css sass_ctx init_state = (Throw ThrownNull, init_state)"
    using n by (simp add: TRANSFORMS_css_skip)
  have p: "\<not> prefix ''/@npm/'' (posix_normalize example_env (req_path sass_request))"
    by (simp add: sass_request_def example_env_fields)
  have d: "trace (wmrMiddleware example_env sass_request init_state) = [Next None]"
    using middleware_css_skip [OF p example_prepare(1) n] by (simp add: init_state_def)
  from a b c d example_prepare(1) show ?thesis by blast
qed

text \<open>
  Claim C5, amended. The stylesheet transform declines, by throwing \<^verbatim>\<open>null\<close> before it
  looks at the cache or the disk, exactly when the request path does not end in
  \<^verbatim>\<open>.module.css\<close>; paths ending in \<^verbatim>\<open>.module.scss\<close> or \<^verbatim>\<open>.module.sass\<close> are declined
  too. The handler then calls \<^verbatim>\<open>next()\<close> and writes no response. For a path ending in
  \<^verbatim>\<open>.module.css\<close> the transform returns the cached content, or, when nothing is cached and
  reading and scoping the source succeed, the scoped source.
\<close>

theorem stylesheet_guard:
  "(TRANSFORMS_css env c s = (Throw ThrownNull, s) \<longleftrightarrow> \<not> suffix ''.module.css'' (ctx_path c))
   \<and> (suffix ''.module.css'' (ctx_path c) \<and> WRITE_CACHE s (ctx_id c) = Some v \<longrightarrow>
        TRANSFORMS_css env c s = (Return (RetContent v), s))
   \<and> (suffix ''.module.css'' (ctx_path c) \<and> WRITE_CACHE s (ctx_id c) = None
        \<and> fs_readFile env (path_resolve env (cwd env) (ctx_file c)) = Inr code1
        \<and> modularizeCss env code1 (ctx_id c) = Inr code2 \<longrightarrow>
        fst (TRANSFORMS_css env c s) = Return (RetContent code2))
   \<and> (\<not> prefix ''/@npm/'' (posix_normalize env (req_path req))
        \<and> prepare env req s = (Css, c, s2) \<and> \<not> suffix ''.module.css'' (ctx_path c) \<longrightarrow>
        wmrMiddleware env req s = emit (Next None) s2
        \<and> trace (wmrMiddleware env req s) = trace s2 @ [Next None]
        \<and> response_writes (wmrMiddleware env req s) = response_writes s)"
proof -
  have a: "TRANSFORMS_css env c s = (Throw ThrownNull, s) \<longleftrightarrow> \<not> suffix ''.module.css'' (ctx_path c)"
    using TRANSFORMS_css_skip [of c env s] TRANSFORMS_css_accepts [of c env s] by blast
  have b: "suffix ''.module.css'' (ctx_path c) \<and> WRITE_CACHE s (ctx_id c) = Some v \<longrightarrow>
        TRANSFORMS_css env c s = (Return (RetContent v), s)"
    by (simp add: TRANSFORMS_css_hit)
  have c: "suffix ''.module.css'' (ctx_path c) \<and> WRITE_CACHE s (ctx_id c) = None
        \<and> fs_readFile env (path_resolve env (cwd env) (ctx_file c)) = Inr code1
        \<and> modularizeCss env code1 (ctx_id c) = Inr code2 \<longrightarrow>
        fst (TRANSFORMS_css env c s) = Return (RetContent code2)"
    by (simp add: TRANSFORMS_css_def test_re_module_css Let_def)
  have d: "\<not> prefix ''/@npm/'' (posix_normalize env (req_path req))
        \<and> prepare env req s = (Css, c, s2) \<and> \<not> suffix ''.module.css'' (ctx_path c) \<longrightarrow>
        wmrMiddleware env req s = emit (Next None) s2
        \<and> trace (wmrMiddleware env req s) = trace s2 @ [Next None]
        \<and> response_writes (wmrMiddleware env req s) = response_writes s"
  proof (intro impI, elim conjE)
    assume h: "\<not> prefix ''/@npm/'' (posix_normalize env (req_path req))"
      "prepare env req s = (Css, c, s2)" "\<not> suffix ''.module.css'' (ctx_path c)"
    from h(2) have "response_writes s2 = response_writes s"
      using prepare_response [of env req s] by simp
    then show "wmrMiddleware env req s = emit (Next None) s2
        \<and> trace (wmrMiddleware env req s) = trace s2 @ [Next None]
        \<and> response_writes (wmrMiddleware env req s) = response_writes s"
      by (simp add: middleware_css_skip [OF h])
  qed
  from a b c d show ?thesis by blast
qed

theorem stylesheet_guard_witness:
  "\<not> suffix ''.module.css'' (ctx_path plain_css_ctx)
   \<and> TRANSFORMS_css example_env plain_css_ctx init_state = (Throw ThrownNull, init_state)
   \<and> \<not> prefix ''/@npm/'' (posix_normalize example_env (req_path plain_css_request))
   \<and> prepare example_env plain_css_request init_state = (Css, plain_css_ctx, init_state)
   \<and> trace (wmrMiddleware example_env plain_css_request init_state) = [Next None]
   \<and> suffix ''.module.css'' (ctx_path module_css_ctx)
   \<and> WRITE_CACHE init_state (ctx_id module_css_ctx) = None
   \<and> fst (TRANSFORMS_css example_env module_css_ctx init_state) = Return (RetContent ''.a{}'')
   \<and> WRITE_CACHE (init_state\<lparr>WRITE_CACHE := [''a.module.css'' \<mapsto> ''.a_1{}'']\<rparr>)
        (ctx_id module_css_ctx) = Some ''.a_1{}''
   \<and> fst (TRANSFORMS_css example_env module_css_ctx
            (init_state\<lparr>WRITE_CACHE := [''a.module.css'' \<mapsto> ''.a_1{}'']\<rparr>))
       = Return (RetContent ''.a_1{}'')"
proof -
  have n: "\<not> suffix ''.module.css'' (ctx_path plain_css_ctx)"
    by (simp add: plain_css_ctx_def suffix_to_prefix)
  have p: "\<not> prefix ''/@npm/'' (posix_normalize example_env (req_path plain_css_request))"
    by (simp add: plain_css_request_def example_env_fields)
  have y: "suffix ''.module.css'' (ctx_path module_css_ctx)"
    by (simp add: module_css_ctx_def suffix_to_prefix)
  have r: "fs_readFile example_env (path_resolve example_env (cwd example_env) (ctx_file module_css_ctx))
       = Inr ''.a{}''"
    "modularizeCss example_env ''.a{}'' (ctx_id module_css_ctx) = Inr ''.a{}''"
    "WRITE_CACHE init_state (ctx_id module_css_ctx) = None"
    "WRITE_CACHE (init_state\<lparr>WRITE_CACHE := [''a.module.css'' \<mapsto> ''.a_1{}'']\<rparr>)
        (ctx_id module_css_ctx) = Some ''.a_1{}''"
    by (simp_all add: example_env_fields module_css_ctx_def example_env_def init_state_def)
  show ?thesis
    using stylesheet_guard [of example_env plain_css_ctx init_state _ _ _ plain_css_request init_state]
      stylesheet_guard [of example_env module_css_ctx init_state _ "''.a{}''" "''.a{}''"]
      stylesheet_guard [of example_env module_css_ctx
          "init_state\<lparr>WRITE_CACHE := [''a.module.css'' \<mapsto> ''.a_1{}'']\<rparr>" "''.a_1{}''"]
      n p y r example_prepare(2)
    by (simp add: init_state_def)
qed

section \<open>Cache hits\<close>

text \<open>
  Claim C2. Let the module, proxy or stylesheet transform answer a request for an id with
  content. Then that content is stored in the cache under the id. If the entry is still the
  same at a second request for the id (it has not been invalidated), the transform returns
  the same content, whatever the source tree and the collaborators have become; it leaves the
  cache as it is, and its only effect is the \<^verbatim>\<open>content-type\<close> header of the module and proxy
  transforms: no file is read and no collaborator is called. The same holds of the first
  request when the entry was already present. The handler answers such a second request with
  status 200 and exactly that content.
\<close>

theorem cache_hit_determinism:
  assumes "cached_transform t"
    and "run_transform env t c s = (Return (RetContent v), s1)"
    and "WRITE_CACHE s2 (ctx_id c) = WRITE_CACHE s1 (ctx_id c)"
  shows "WRITE_CACHE s1 (ctx_id c) = Some v
     \<and> fst (run_transform env2 t c s2) = Return (RetContent v)
     \<and> WRITE_CACHE (snd (run_transform env2 t c s2)) = WRITE_CACHE s2
     \<and> trace (snd (run_transform env2 t c s2))
         = trace s2 @ (if t = Css then [] else [js_header])
     \<and> (\<forall>u. WRITE_CACHE s (ctx_id c) = Some u \<longrightarrow>
          v = u \<and> WRITE_CACHE s1 = WRITE_CACHE s
          \<and> trace s1 = trace s @ (if t = Css then [] else [js_header]))
     \<and> (\<forall>req s3. \<not> prefix ''/@npm/'' (posix_normalize env2 (req_path req))
          \<and> prepare env2 req s2 = (t, c, s3) \<longrightarrow>
          response_writes (wmrMiddleware env2 req s2)
            = response_writes s2 @ [WriteHead 200 (length v) (transform_name t)
                (now_end env2 - now_start env2), End v])"
proof -
  from run_transform_stores [OF assms(1,2)]
  have st: "WRITE_CACHE s1 (ctx_id c) = Some v"
    and g: "t = Css \<longrightarrow> suffix ''.module.css'' (ctx_path c)"
    by simp_all
  from st assms(3) have "WRITE_CACHE s2 (ctx_id c) = Some v" by simp
  from run_transform_hit [OF assms(1) this g, of env2]
  have second: "fst (run_transform env2 t c s2) = Return (RetContent v)
     \<and> WRITE_CACHE (snd (run_transform env2 t c s2)) = WRITE_CACHE s2
     \<and> trace (snd (run_transform env2 t c s2))
         = trace s2 @ (if t = Css then [] else [js_header])"
    by simp
  have hit: "\<forall>u. WRITE_CACHE s (ctx_id c) = Some u \<longrightarrow>
          v = u \<and> WRITE_CACHE s1 = WRITE_CACHE s
          \<and> trace s1 = trace s @ (if t = Css then [] else [js_header])"
  proof (intro allI impI)
    fix u
    assume "WRITE_CACHE s (ctx_id c) = Some u"
    from run_transform_hit [OF assms(1) this g, of env] assms(2)
    show "v = u \<and> WRITE_CACHE s1 = WRITE_CACHE s
          \<and> trace s1 = trace s @ (if t = Css then [] else [js_header])"
      by (auto split: if_splits)
  qed
  have answer: "\<forall>req s3. \<not> prefix ''/@npm/'' (posix_normalize env2 (req_path req))
          \<and> prepare env2 req s2 = (t, c, s3) \<longrightarrow>
          response_writes (wmrMiddleware env2 req s2)
            = response_writes s2 @ [WriteHead 200 (length v) (transform_name t)
                (now_end env2 - now_start env2), End v]"
    using middleware_hit [OF assms(1) _ _ \<open>WRITE_CACHE s2 (ctx_id c) = Some v\<close> g]
    by blast
  from st second hit answer show ?thesis by blast
qed

theorem cache_hit_determinism_witness:
  "cached_transform Js
   \<and> WRITE_CACHE init_state (ctx_id util_ctx) = None
   \<and> fst (run_transform example_env Js util_ctx init_state) = Return (RetContent ''.a{}'')
   \<and> fst (run_transform offline_env Js util_ctx
            (snd (run_transform example_env Js util_ctx init_state)))
       = Return (RetContent ''.a{}'')
   \<and> trace (snd (run_transform offline_env Js util_ctx
            (snd (run_transform example_env Js util_ctx init_state))))
       = trace (snd (run_transform example_env Js util_ctx init_state)) @ [js_header]"
proof -
  have a: "cached_transform Js"
    by (simp add: cached_transform_def)
  have b: "WRITE_CACHE init_state (ctx_id util_ctx) = None"
    by (simp add: init_state_def)
  show ?thesis
    using cache_hit_determinism [OF a example_js_run refl, of offline_env] a b example_js_run
    by simp
qed

section \<open>Population of the cache\<close>

text \<open>
  Claim C8. \<^verbatim>\<open>writeCacheFile\<close> stores the data in the cache before it touches the disk: its
  first effect is the update of the cache, every later effect is a call of \<^verbatim>\<open>fs.mkdir\<close> or
  \<^verbatim>\<open>fs.writeFile\<close>, and the cache afterwards holds the data under the file name whether the
  promise is fulfilled or rejected. What a transform returns, and the cache it leaves, do not
  depend on how \<^verbatim>\<open>fs.mkdir\<close> and \<^verbatim>\<open>fs.writeFile\<close> behave; in particular the module
  transform returns the code it computed, and has it in the cache, when the mirror fails.
\<close>

theorem population_precedes_mirror:
  "WRITE_CACHE (snd (writeCacheFile env rootDir fileName data s)) = (WRITE_CACHE s)(fileName \<mapsto> data)
   \<and> WRITE_CACHE (snd (writeCacheFile env rootDir fileName data s)) fileName = Some data
   \<and> (\<exists>es. trace (snd (writeCacheFile env rootDir fileName data s))
               = trace s @ CacheSet fileName data # es \<and> list_all is_disk_io es)
   \<and> (\<forall>e. fst (writeCacheFile env rootDir fileName data s) = Some e \<longrightarrow>
          WRITE_CACHE (snd (writeCacheFile env rootDir fileName data s)) fileName = Some data)
   \<and> fst (run_transform (env\<lparr>fs_mkdir := mkd, fs_writeFile := wrf\<rparr>) t c s)
       = fst (run_transform env t c s)
   \<and> WRITE_CACHE (snd (run_transform (env\<lparr>fs_mkdir := mkd, fs_writeFile := wrf\<rparr>) t c s))
       = WRITE_CACHE (snd (run_transform env t c s))
   \<and> (WRITE_CACHE s (ctx_id c) = None
        \<and> fs_readFile env (path_resolve env (cwd env) (ctx_file c)) = Inr code1
        \<and> NonRollup_transform env code1 (ctx_id c) = Inr code2
        \<and> transformImports env code2 (ctx_id c) (\<lambda>spec. Some (resolveId spec)) = Inr code3 \<longrightarrow>
        fst (TRANSFORMS_js env c s) = Return (RetContent code3)
        \<and> WRITE_CACHE (snd (TRANSFORMS_js env c s)) (ctx_id c) = Some code3)"
proof -
  have a: "WRITE_CACHE (snd (writeCacheFile env rootDir fileName data s))
      = (WRITE_CACHE s)(fileName \<mapsto> data)"
    by (rule writeCacheFile_cache)
  then have b: "WRITE_CACHE (snd (writeCacheFile env rootDir fileName data s)) fileName = Some data"
    by simp
  have c: "\<exists>es. trace (snd (writeCacheFile env rootDir fileName data s))
               = trace s @ CacheSet fileName data # es \<and> list_all is_disk_io es"
    by (rule writeCacheFile_trace)
  have d: "WRITE_CACHE s (ctx_id c) = None
        \<and> fs_readFile env (path_resolve env (cwd env) (ctx_file c)) = Inr code1
        \<and> NonRollup_transform env code1 (ctx_id c) = Inr code2
        \<and> transformImports env code2 (ctx_id c) (\<lambda>spec. Some (resolveId spec)) = Inr code3 \<longrightarrow>
        fst (TRANSFORMS_js env c s) = Return (RetContent code3)
        \<and> WRITE_CACHE (snd (TRANSFORMS_js env c s)) (ctx_id c) = Some code3"
  proof (intro impI, elim conjE)
    assume "WRITE_CACHE s (ctx_id c) = None"
      "fs_readFile env (path_resolve env (cwd env) (ctx_file c)) = Inr code1"
      "NonRollup_transform env code1 (ctx_id c) = Inr code2"
      "transformImports env code2 (ctx_id c) (\<lambda>spec. Some (resolveId spec)) = Inr code3"
    from TRANSFORMS_js_computes [OF this]
    show "fst (TRANSFORMS_js env c s) = Return (RetContent code3)
        \<and> WRITE_CACHE (snd (TRANSFORMS_js env c s)) (ctx_id c) = Some code3"
      by simp
  qed
  from a b c d run_transform_mirror show ?thesis
    by blast
qed

theorem population_precedes_mirror_witness:
  "fst (writeCacheFile example_env ''.dist'' ''src/util.js'' ''code'' init_state)
     = Some (ThrownError ''EACCES'')
   \<and> WRITE_CACHE (snd (writeCacheFile example_env ''.dist'' ''src/util.js'' ''code'' init_state))
       ''src/util.js'' = Some ''code''
   \<and> trace (snd (writeCacheFile example_env ''.dist'' ''src/util.js'' ''code'' init_state))
       = [CacheSet ''src/util.js'' ''code'', FsMkdir ''.dist/src'']
   \<and> WRITE_CACHE init_state (ctx_id util_ctx) = None
   \<and> fs_readFile example_env (path_resolve example_env (cwd example_env) (ctx_file util_ctx))
       = Inr ''.a{}''
   \<and> fs_writeFile example_env ''.dist/util.js'' ''.a{}'' = Some (ThrownError ''EACCES'')
   \<and> fst (TRANSFORMS_js example_env util_ctx init_state) = Return (RetContent ''.a{}'')
   \<and> WRITE_CACHE (snd (TRANSFORMS_js example_env util_ctx init_state)) (ctx_id util_ctx)
       = Some ''.a{}''"
proof -
  have a: "fst (writeCacheFile example_env ''.dist'' ''src/util.js'' ''code'' init_state)
     = Some (ThrownError ''EACCES'')"
    by (simp add: writeCacheFile_def example_env_def Let_def)
  have b: "trace (snd (writeCacheFile example_env ''.dist'' ''src/util.js'' ''code'' init_state))
       = [CacheSet ''src/util.js'' ''code'', FsMkdir ''.dist/src'']"
    by (simp add: writeCacheFile_def example_env_def init_state_def Let_def)
  have c: "WRITE_CACHE init_state (ctx_id util_ctx) = None"
    by (simp add: init_state_def)
  have d: "fs_readFile example_env (path_resolve example_env (cwd example_env) (ctx_file util_ctx))
       = Inr ''.a{}''"
    by (simp add: example_env_fields util_ctx_def)
  have e: "NonRollup_transform example_env ''.a{}'' (ctx_id util_ctx) = Inr ''.a{}''"
    by (simp add: example_env_def)
  have f: "transformImports example_env ''.a{}'' (ctx_id util_ctx) (\<lambda>spec. Some (resolveId spec))
       = Inr ''.a{}''"
    by (simp add: example_env_def)
  have g: "fs_writeFile example_env ''.dist/util.js'' ''.a{}'' = Some (ThrownError ''EACCES'')"
    by (simp add: example_env_def)
  note inst = population_precedes_mirror
      [where env = example_env and rootDir = "''.dist''" and fileName = "''src/util.js''"
         and data = "''code''" and s = init_state and mkd = "\<lambda>d. None"
         and wrf = "\<lambda>p d. None" and t = Js and c = util_ctx
         and ?code1.0 = "''.a{}''" and ?code2.0 = "''.a{}''" and ?code3.0 = "''.a{}''"]
  from inst have k: "WRITE_CACHE
        (snd (writeCacheFile example_env ''.dist'' ''src/util.js'' ''code'' init_state))
        ''src/util.js'' = Some ''code''"
    by blast
  from inst c d e f have j: "fst (TRANSFORMS_js example_env util_ctx init_state)
        = Return (RetContent ''.a{}'')
      \<and> WRITE_CACHE (snd (TRANSFORMS_js example_env util_ctx init_state)) (ctx_id util_ctx)
        = Some ''.a{}''"
    by blast
  from a b c d g k j show ?thesis
    by blast
qed

section \<open>Batching of change notifications\<close>

text \<open>
  Claim C9. Take any state the watcher can reach in which no change is pending; no flush is
  scheduled then. Let one or more changes arrive and then the timer fire. The first change
  schedules one flush with a delay of 60 milliseconds and the later ones schedule none; all of
  them are collected in the one pending set, each web-relative path once, and nothing is
  notified before the timer fires. When it fires, exactly one notification is sent, with all
  the collected paths, the pending set is empty again, and no timer is left to fire.
\<close>

theorem debounce_window:
  assumes "watcher_run env evs init_state = Some s"
    and "pendingChanges s = []"
    and "fs \<noteq> []"
  shows "\<exists>s1 s2.
      watcher_run env (map FileChange fs) s = Some s1
      \<and> pendingChanges s1 = fold set_add (map (web_path env) fs) []
      \<and> set (pendingChanges s1) = web_path env ` set fs
      \<and> distinct (pendingChanges s1)
      \<and> timers s = [] \<and> timers s1 = [60]
      \<and> schedules s1 = schedules s @ [SetTimeout 60]
      \<and> notifications s1 = notifications s
      \<and> watcher_run env (map FileChange fs @ [TimerFires]) s = Some s2
      \<and> notifications s2 = notifications s @ [OnChange (pendingChanges s1) 0]
      \<and> schedules s2 = schedules s @ [SetTimeout 60]
      \<and> pendingChanges s2 = [] \<and> timers s2 = []
      \<and> watcher_run env [TimerFires] s2 = None"
proof -
  define s1 where "s1 = fold (watcher_on_change env) fs s"
  define s2 where "s2 = flushChanges (s1\<lparr>timers := []\<rparr>)"
  have "watcher_inv init_state"
    by (simp add: watcher_inv_def init_state_def)
  from watcher_run_inv [OF this assms(1)] assms(2) have t0: "timers s = []"
    by (simp add: watcher_inv_def)
  have r1: "watcher_run env (map FileChange fs) s = Some s1"
    by (simp add: s1_def changes_run)
  have p1: "pendingChanges s1 = fold set_add (map (web_path env) fs) []"
    by (simp add: s1_def changes_fold assms(2))
  have ps: "set (pendingChanges s1) = web_path env ` set fs" "distinct (pendingChanges s1)"
    by (simp_all add: p1 fold_set_add_set fold_set_add_distinct)
  from changes_fold_idle [OF assms(2,3), of env] t0
  have t1: "timers s1 = [60]" and sc1: "schedules s1 = schedules s @ [SetTimeout 60]"
    by (simp_all add: s1_def)
  have n1: "notifications s1 = notifications s"
    by (simp add: s1_def changes_fold)
  have r2: "watcher_run env (map FileChange fs @ [TimerFires]) s = Some s2"
    by (simp add: watcher_run_append r1 t1 s2_def)
  have n2: "notifications s2 = notifications s @ [OnChange (pendingChanges s1) 0]"
    by (simp add: s2_def flush_watcher n1)
  have sc2: "schedules s2 = schedules s @ [SetTimeout 60]"
    by (simp add: s2_def flush_watcher sc1)
  have e2: "pendingChanges s2 = []" "timers s2 = []"
    by (simp_all add: s2_def flush_watcher)
  then have r3: "watcher_run env [TimerFires] s2 = None"
    by simp
  from r1 p1 ps t0 t1 sc1 n1 r2 n2 sc2 e2 r3 show ?thesis
    by blast
qed

theorem debounce_window_witness:
  "watcher_run example_env [] init_state = Some init_state
   \<and> pendingChanges init_state = []
   \<and> (\<exists>s2. watcher_run example_env
          (map FileChange [''src/a.js'', ''src/b.js'', ''src/a.js''] @ [TimerFires])
          init_state = Some s2
        \<and> notifications s2 = [OnChange [''/src/a.js'', ''/src/b.js''] 0]
        \<and> schedules s2 = [SetTimeout 60]
        \<and> pendingChanges s2 = [] \<and> timers s2 = [])"
proof -
  have a: "watcher_run example_env [] init_state = Some init_state"
    by simp
  have b: "pendingChanges init_state = []"
    by (simp add: init_state_def)
  have c: "[''src/a.js'', ''src/b.js'', ''src/a.js''] \<noteq> []"
    by simp
  have w: "fold set_add (map (web_path example_env) [''src/a.js'', ''src/b.js'', ''src/a.js'']) []
      = [''/src/a.js'', ''/src/b.js'']"
    by (simp add: web_path_def example_env_posix set_add_def)
  have n: "notifications init_state = []" "schedules init_state = []"
    by (simp_all add: notifications_def schedules_def init_state_def)
  from debounce_window [OF a b c]
  obtain s1 s2 where h:
    "watcher_run example_env (map FileChange [''src/a.js'', ''src/b.js'', ''src/a.js'']) init_state
       = Some s1
     \<and> pendingChanges s1 = fold set_add (map (web_path example_env)
          [''src/a.js'', ''src/b.js'', ''src/a.js'']) []
     \<and> set (pendingChanges s1)
          = web_path example_env ` set [''src/a.js'', ''src/b.js'', ''src/a.js'']
     \<and> distinct (pendingChanges s1)
     \<and> timers init_state = [] \<and> timers s1 = [60]
     \<and> schedules s1 = schedules init_state @ [SetTimeout 60]
     \<and> notifications s1 = notifications init_state
     \<and> watcher_run example_env
          (map FileChange [''src/a.js'', ''src/b.js'', ''src/a.js''] @ [TimerFires]) init_state
          = Some s2
     \<and> notifications s2 = notifications init_state @ [OnChange (pendingChanges s1) 0]
     \<and> schedules s2 = schedules init_state @ [SetTimeout 60]
     \<and> pendingChanges s2 = [] \<and> timers s2 = []
     \<and> watcher_run example_env [TimerFires] s2 = None"
    by (elim exE)
  from h have r: "watcher_run example_env
          (map FileChange [''src/a.js'', ''src/b.js'', ''src/a.js''] @ [TimerFires]) init_state
          = Some s2"
    and e: "pendingChanges s2 = []" "timers s2 = []"
    and p: "pendingChanges s1 = fold set_add (map (web_path example_env)
          [''src/a.js'', ''src/b.js'', ''src/a.js'']) []"
    and ns: "notifications s2 = notifications init_state @ [OnChange (pendingChanges s1) 0]"
      "schedules s2 = schedules init_state @ [SetTimeout 60]"
    by blast+
  from ns have "notifications s2 = [OnChange [''/src/a.js'', ''/src/b.js''] 0]"
    and "schedules s2 = [SetTimeout 60]"
    unfolding p w n by simp_all
  with r e a b show ?thesis
    by blast
qed

end
